theory Spec2Isabelle
  imports Main
begin

section \<open>JavaScript values and strings\<close>

text \<open>
  Request bodies, error objects and stored entities are typed \<^verbatim>\<open>any\<close> in the
  TypeScript sources. The fragment of JSON values the routes look at is the datatype
  \<open>jsval\<close>; numbers are restricted to integers. A JavaScript string is an Isabelle
  \<open>string\<close>, one \<open>char\<close> per UTF-16 code unit, restricted to the code units
  below 256 (Latin-1), which covers every literal of the sources.
\<close>

datatype jsval =
    JUndefined
  | JNull
  | JBool bool
  | JNum int
  | JStr string
  | JArr "jsval list"
  | JObj "(string \<times> jsval) list"

text \<open>Truthiness, as used by \<^verbatim>\<open>||\<close>, \<^verbatim>\<open>!\<close> and \<^verbatim>\<open>if\<close>.\<close>

fun truthy :: "jsval \<Rightarrow> bool" where
  "truthy JUndefined = False"
| "truthy JNull = False"
| "truthy (JBool b) = b"
| "truthy (JNum n) = (n \<noteq> 0)"
| "truthy (JStr s) = (s \<noteq> [])"
| "truthy (JArr xs) = True"
| "truthy (JObj kvs) = True"

text \<open>\<^verbatim>\<open>a || b\<close>: the first operand when it is truthy, the second otherwise.\<close>

definition js_or :: "jsval \<Rightarrow> jsval \<Rightarrow> jsval" where
  "js_or a b = (if truthy a then a else b)"

text \<open>\<^verbatim>\<open>String.prototype.startsWith\<close> and \<^verbatim>\<open>String.prototype.includes\<close>.\<close>

fun startsWith :: "string \<Rightarrow> string \<Rightarrow> bool" where
  "startsWith s [] = True"
| "startsWith [] (c # cs) = False"
| "startsWith (x # xs) (c # cs) = (x = c \<and> startsWith xs cs)"

fun includes_js :: "string \<Rightarrow> string \<Rightarrow> bool" where
  "includes_js [] sub = (sub = [])"
| "includes_js (x # xs) sub = (startsWith (x # xs) sub \<or> includes_js xs sub)"

text \<open>
  \<^verbatim>\<open>String.prototype.toLowerCase\<close> on Latin-1: the letters A to Z (65 to 90)
  and the accented capitals U+00C0 to U+00DE (192 to 222) move up by 32, read from a
  table in which the multiplication sign U+00D7 keeps its place; every other code unit
  stays.
\<close>

definition lower_az :: string where
  "lower_az = ''abcdefghijklmnopqrstuvwxyz''"

definition lower_latin1 :: string where
  "lower_latin1 =
     [CHR 0xE0, CHR 0xE1, CHR 0xE2, CHR 0xE3, CHR 0xE4, CHR 0xE5, CHR 0xE6, CHR 0xE7,
      CHR 0xE8, CHR 0xE9, CHR 0xEA, CHR 0xEB, CHR 0xEC, CHR 0xED, CHR 0xEE, CHR 0xEF,
      CHR 0xF0, CHR 0xF1, CHR 0xF2, CHR 0xF3, CHR 0xF4, CHR 0xF5, CHR 0xF6, CHR 0xD7,
      CHR 0xF8, CHR 0xF9, CHR 0xFA, CHR 0xFB, CHR 0xFC, CHR 0xFD, CHR 0xFE]"

definition lower_char :: "char \<Rightarrow> char" where
  "lower_char c =
     (let n = (of_char c :: nat) in
      if 65 \<le> n \<and> n \<le> 90 then lower_az ! (n - 65)
      else if 192 \<le> n \<and> n \<le> 222 then lower_latin1 ! (n - 192)
      else c)"

definition toLowerCase :: "string \<Rightarrow> string" where
  "toLowerCase s = map lower_char s"

text \<open>The decimal numeral of a number, as a template literal prints \<^verbatim>\<open>Date.now()\<close>.\<close>

fun digits :: "nat \<Rightarrow> string" where
  "digits n = (if n < 10 then [''0123456789'' ! n]
               else digits (n div 10) @ [''0123456789'' ! (n mod 10)])"

declare digits.simps [simp del]

text \<open>
  \<^verbatim>\<open>Math.random().toString(36).slice(2, 6)\<close>: the first four base-36 digits after
  the point (fewer when the expansion is shorter). The random number is given by the
  digits of its base-36 expansion.
\<close>

definition base36 :: string where
  "base36 = ''0123456789abcdefghijklmnopqrstuvwxyz''"

definition random_suffix :: "nat list \<Rightarrow> string" where
  "random_suffix ds = map (\<lambda>d. base36 ! (d mod 36)) (take 4 ds)"


section \<open>AI gateway: classification of remote-model errors (server/routes/gemini.ts)\<close>

text \<open>
  The thrown error, as \<^verbatim>\<open>parseGeminiError\<close> reads it: the \<^verbatim>\<open>message\<close>
  property (absent, or a string), the result of \<^verbatim>\<open>String(error)\<close>, and the four
  properties that may carry a status.
\<close>

record gemini_error =
  err_message :: "string option"
  err_string :: string
  err_status :: jsval
  err_statusCode :: jsval
  err_httpStatusCode :: jsval
  err_code :: jsval

record parsed_error =
  status :: nat
  message :: string
  code :: string

text \<open>\<^verbatim>\<open>error.message || String(error)\<close>\<close>

definition error_text :: "gemini_error \<Rightarrow> string" where
  "error_text e =
     (case err_message e of
        None \<Rightarrow> err_string e
      | Some m \<Rightarrow> if m \<noteq> [] then m else err_string e)"

text \<open>\<^verbatim>\<open>error.status || error.statusCode || error.httpStatusCode || error.code\<close>\<close>

definition error_status :: "gemini_error \<Rightarrow> jsval" where
  "error_status e =
     js_or (js_or (js_or (err_status e) (err_statusCode e)) (err_httpStatusCode e)) (err_code e)"

definition RATE_LIMITED_MESSAGE :: string where
  "RATE_LIMITED_MESSAGE = ''Limite de requisi'' @ [CHR 0xE7, CHR 0xF5] @
     ''es da API Gemini atingido. Aguarde alguns segundos e tente novamente.''"

definition SERVICE_UNAVAILABLE_MESSAGE :: string where
  "SERVICE_UNAVAILABLE_MESSAGE = ''O servi'' @ [CHR 0xE7] @ ''o Gemini est'' @ [CHR 0xE1] @
     '' temporariamente indispon'' @ [CHR 0xED] @ ''vel. Tente novamente em instantes.''"

definition BAD_REQUEST_MESSAGE :: string where
  "BAD_REQUEST_MESSAGE = ''A requisi'' @ [CHR 0xE7, CHR 0xE3] @ ''o foi bloqueada (poss'' @
     [CHR 0xED] @ ''vel filtro de seguran'' @ [CHR 0xE7] @ ''a ou dados inv'' @ [CHR 0xE1] @
     ''lidos).''"

definition AUTH_ERROR_MESSAGE :: string where
  "AUTH_ERROR_MESSAGE = ''Erro de autentica'' @ [CHR 0xE7, CHR 0xE3] @
     ''o com a API Gemini. Verifique as credenciais do projeto.''"

definition INTERNAL_ERROR_PREFIX :: string where
  "INTERNAL_ERROR_PREFIX = ''Erro interno ao chamar a API Gemini: ''"

definition parseGeminiError :: "gemini_error \<Rightarrow> parsed_error" where
  "parseGeminiError e =
     (let msg = error_text e; st = error_status e in
      if st = JNum 429 \<or> includes_js msg ''429'' \<or> includes_js msg ''RESOURCE_EXHAUSTED''
         \<or> includes_js (toLowerCase msg) ''rate limit'' \<or> includes_js (toLowerCase msg) ''quota''
      then \<lparr>status = 429, message = RATE_LIMITED_MESSAGE, code = ''RATE_LIMITED''\<rparr>
      else if st = JNum 503 \<or> includes_js msg ''503'' \<or> includes_js msg ''UNAVAILABLE''
      then \<lparr>status = 503, message = SERVICE_UNAVAILABLE_MESSAGE, code = ''SERVICE_UNAVAILABLE''\<rparr>
      else if st = JNum 400 \<or> includes_js msg ''400'' \<or> includes_js msg ''INVALID_ARGUMENT''
         \<or> includes_js msg ''SAFETY''
      then \<lparr>status = 400, message = BAD_REQUEST_MESSAGE, code = ''BAD_REQUEST''\<rparr>
      else if st = JNum 401 \<or> st = JNum 403 \<or> includes_js msg ''401'' \<or> includes_js msg ''403''
         \<or> includes_js msg ''PERMISSION_DENIED'' \<or> includes_js msg ''UNAUTHENTICATED''
      then \<lparr>status = 403, message = AUTH_ERROR_MESSAGE, code = ''AUTH_ERROR''\<rparr>
      else \<lparr>status = 500, message = INTERNAL_ERROR_PREFIX @ msg, code = ''INTERNAL_ERROR''\<rparr>)"

text \<open>
  What \<^verbatim>\<open>handleGeminiError\<close> does: one line on the server console (the label and the
  logged value) and the response sent to the caller, a status with the JSON body
  \<^verbatim>\<open>{ error, code }\<close>.
\<close>

record gateway_reply =
  console_label :: string
  console_value :: string
  reply_status :: nat
  reply_error :: string
  reply_code :: string

definition handleGeminiError :: "string \<Rightarrow> gemini_error \<Rightarrow> gateway_reply" where
  "handleGeminiError endpoint e =
     (let parsed = parseGeminiError e in
      \<lparr>console_label = endpoint @ '' error ['' @ code parsed @ '']:'',
       console_value = error_text e,
       reply_status = status parsed,
       reply_error = message parsed,
       reply_code = code parsed\<rparr>)"

subsection \<open>The classification as the specification words it\<close>

datatype failure_class = RateLimited | ServiceUnavailable | BadRequest | AuthError | InternalError

fun class_status :: "failure_class \<Rightarrow> nat" where
  "class_status RateLimited = 429"
| "class_status ServiceUnavailable = 503"
| "class_status BadRequest = 400"
| "class_status AuthError = 403"
| "class_status InternalError = 500"

fun class_code :: "failure_class \<Rightarrow> string" where
  "class_code RateLimited = ''RATE_LIMITED''"
| "class_code ServiceUnavailable = ''SERVICE_UNAVAILABLE''"
| "class_code BadRequest = ''BAD_REQUEST''"
| "class_code AuthError = ''AUTH_ERROR''"
| "class_code InternalError = ''INTERNAL_ERROR''"


text \<open>
  The same list with the two differences of the code: \<open>rate limit\<close> and \<open>quota\<close>
  are looked for in the lower-cased message, and \<open>UNAUTHENTICATED\<close> is one more
  substring of the authentication class.
\<close>

definition rate_limit_signal :: "gemini_error \<Rightarrow> bool" where
  "rate_limit_signal e =
     (error_status e = JNum 429 \<or> includes_js (error_text e) ''429''
      \<or> includes_js (error_text e) ''RESOURCE_EXHAUSTED''
      \<or> includes_js (toLowerCase (error_text e)) ''rate limit''
      \<or> includes_js (toLowerCase (error_text e)) ''quota'')"

definition unavailable_signal :: "gemini_error \<Rightarrow> bool" where
  "unavailable_signal e =
     (error_status e = JNum 503 \<or> includes_js (error_text e) ''503''
      \<or> includes_js (error_text e) ''UNAVAILABLE'')"

definition bad_request_signal :: "gemini_error \<Rightarrow> bool" where
  "bad_request_signal e =
     (error_status e = JNum 400 \<or> includes_js (error_text e) ''400''
      \<or> includes_js (error_text e) ''INVALID_ARGUMENT'' \<or> includes_js (error_text e) ''SAFETY'')"

definition auth_signal :: "gemini_error \<Rightarrow> bool" where
  "auth_signal e =
     (error_status e = JNum 401 \<or> error_status e = JNum 403
      \<or> includes_js (error_text e) ''401'' \<or> includes_js (error_text e) ''403''
      \<or> includes_js (error_text e) ''PERMISSION_DENIED''
      \<or> includes_js (error_text e) ''UNAUTHENTICATED'')"

definition amended_classify :: "gemini_error \<Rightarrow> failure_class" where
  "amended_classify e =
     (if rate_limit_signal e then RateLimited
      else if unavailable_signal e then ServiceUnavailable
      else if bad_request_signal e then BadRequest
      else if auth_signal e then AuthError
      else InternalError)"

text \<open>The fixed message of each of the four classes that have one.\<close>

fun canned_message :: "failure_class \<Rightarrow> string" where
  "canned_message RateLimited = RATE_LIMITED_MESSAGE"
| "canned_message ServiceUnavailable = SERVICE_UNAVAILABLE_MESSAGE"
| "canned_message BadRequest = BAD_REQUEST_MESSAGE"
| "canned_message AuthError = AUTH_ERROR_MESSAGE"
| "canned_message InternalError = INTERNAL_ERROR_PREFIX"



section \<open>Persistence store (server/routes/persistence.ts)\<close>

subsection \<open>Entities and the store document\<close>

text \<open>
  The objects the five save routes build. The arguments are, in order,
  \<^item> \<open>GeneratedImage\<close>: id, cameraName, imageFile, timestamp;
  \<^item> \<open>VisionAnalysis\<close>: id, cameraName, imageFile, task, result, timestamp;
  \<^item> \<open>ChatSession\<close>: id, messages, startedAt, lastMessageAt;
  \<^item> \<open>SustainabilityReport\<close>: id, inputData, report, charts, timestamp;
  \<^item> \<open>DashboardSnapshot\<close>: id, insights, charts, stats, text, timestamp.
  An \<open>imageFile\<close> of \<open>None\<close> is \<^verbatim>\<open>null\<close>. Collections are \<^verbatim>\<open>any[]\<close>, so
  a collection is a list of entities of any kind.
\<close>

datatype entity =
    GeneratedImage string jsval "string option" string
  | VisionAnalysis string jsval "string option" jsval jsval string
  | ChatSession string jsval jsval jsval
  | SustainabilityReport string jsval jsval jsval string
  | DashboardSnapshot string jsval jsval jsval jsval string

text \<open>The property reads \<^verbatim>\<open>item.id\<close>, \<^verbatim>\<open>item.imageFile\<close>, \<^verbatim>\<open>item.startedAt\<close>;
  a property an object does not have reads as \<^verbatim>\<open>undefined\<close>.\<close>

fun entity_id :: "entity \<Rightarrow> string" where
  "entity_id (GeneratedImage i c f t) = i"
| "entity_id (VisionAnalysis i c f k r t) = i"
| "entity_id (ChatSession i m s l) = i"
| "entity_id (SustainabilityReport i d r c t) = i"
| "entity_id (DashboardSnapshot i n c s x t) = i"

fun entity_imageFile :: "entity \<Rightarrow> string option" where
  "entity_imageFile (GeneratedImage i c f t) = f"
| "entity_imageFile (VisionAnalysis i c f k r t) = f"
| "entity_imageFile (ChatSession i m s l) = None"
| "entity_imageFile (SustainabilityReport i d r c t) = None"
| "entity_imageFile (DashboardSnapshot i n c s x t) = None"

fun entity_startedAt :: "entity \<Rightarrow> jsval" where
  "entity_startedAt (ChatSession i m s l) = s"
| "entity_startedAt (GeneratedImage i c f t) = JUndefined"
| "entity_startedAt (VisionAnalysis i c f k r t) = JUndefined"
| "entity_startedAt (SustainabilityReport i d r c t) = JUndefined"
| "entity_startedAt (DashboardSnapshot i n c s x t) = JUndefined"



text \<open>
  \<^verbatim>\<open>interface StoreData\<close>. A stored document may lack a key: a collection of
  \<open>None\<close> is a key that is absent (\<^verbatim>\<open>undefined\<close> when read).
\<close>

record store_data =
  version :: jsval
  generatedImages :: "entity list option"
  visionAnalyses :: "entity list option"
  chatSessions :: "entity list option"
  sustainabilityReports :: "entity list option"
  dashboardSnapshots :: "entity list option"

datatype collection_key =
  KgeneratedImages | KvisionAnalyses | KchatSessions | KsustainabilityReports | KdashboardSnapshots

fun get_collection :: "collection_key \<Rightarrow> store_data \<Rightarrow> entity list option" where
  "get_collection KgeneratedImages d = generatedImages d"
| "get_collection KvisionAnalyses d = visionAnalyses d"
| "get_collection KchatSessions d = chatSessions d"
| "get_collection KsustainabilityReports d = sustainabilityReports d"
| "get_collection KdashboardSnapshots d = dashboardSnapshots d"

fun set_collection :: "collection_key \<Rightarrow> entity list \<Rightarrow> store_data \<Rightarrow> store_data" where
  "set_collection KgeneratedImages xs d = d\<lparr>generatedImages := Some xs\<rparr>"
| "set_collection KvisionAnalyses xs d = d\<lparr>visionAnalyses := Some xs\<rparr>"
| "set_collection KchatSessions xs d = d\<lparr>chatSessions := Some xs\<rparr>"
| "set_collection KsustainabilityReports xs d = d\<lparr>sustainabilityReports := Some xs\<rparr>"
| "set_collection KdashboardSnapshots xs d = d\<lparr>dashboardSnapshots := Some xs\<rparr>"

definition empty_store :: store_data where
  "empty_store = \<lparr>version = JNum 1, generatedImages = Some [], visionAnalyses = Some [],
     chatSessions = Some [], sustainabilityReports = Some [], dashboardSnapshots = Some []\<rparr>"

subsection \<open>Paths and the file system\<close>

text \<open>
  A path is the list of its segments, relative to the directory of the application
  (the parent of \<^verbatim>\<open>server/\<close>). \<^verbatim>\<open>path.join\<close> concatenates with a slash and
  normalises: empty and \<^verbatim>\<open>.\<close> segments vanish, \<^verbatim>\<open>..\<close> removes the segment before
  it, and stays when there is none to remove.
\<close>

type_synonym path = "string list"

fun split_slash :: "string \<Rightarrow> string list" where
  "split_slash [] = [[]]"
| "split_slash (c # cs) =
     (if c = CHR ''/'' then [] # split_slash cs
      else (case split_slash cs of [] \<Rightarrow> [[c]] | s # ss \<Rightarrow> (c # s) # ss))"

definition push_segment :: "path \<Rightarrow> string \<Rightarrow> path" where
  "push_segment acc seg =
     (if seg = [] \<or> seg = ''.'' then acc
      else if seg = ''..''
           then (if acc = [] \<or> last acc = ''..'' then acc @ [''..''] else butlast acc)
      else acc @ [seg])"

definition path_join :: "path \<Rightarrow> string \<Rightarrow> path" where
  "path_join dir name = foldl push_segment dir (split_slash name)"

definition dirname :: path where
  "dirname = [''server'', ''routes'']"

definition DATA_DIR :: path where
  "DATA_DIR = path_join (path_join (path_join dirname ''..'') ''..'') ''data''"

definition IMAGES_DIR :: path where
  "IMAGES_DIR = path_join DATA_DIR ''images''"

definition STORE_FILE :: path where
  "STORE_FILE = path_join DATA_DIR ''store.json''"

text \<open>
  What a file holds: the JSON text of a store document (what \<^verbatim>\<open>JSON.stringify\<close>
  wrote and \<^verbatim>\<open>JSON.parse\<close> reads back), the bytes decoded from a base64 text
  (\<^verbatim>\<open>Buffer.from(text, 'base64')\<close>; the decoder is Node's and stays symbolic), or
  anything else, which does not parse as JSON.
\<close>

datatype content = StoreDoc store_data | ImageData string | OtherContent string

record world =
  dirs :: "path set"
  files :: "path \<Rightarrow> content option"

definition existsSync :: "world \<Rightarrow> path \<Rightarrow> bool" where
  "existsSync w p = (p \<in> dirs w \<or> files w p \<noteq> None)"

fun nonempty_prefixes :: "'a list \<Rightarrow> 'a list list" where
  "nonempty_prefixes [] = []"
| "nonempty_prefixes (x # xs) = [x] # map ((#) x) (nonempty_prefixes xs)"

text \<open>\<^verbatim>\<open>fs.mkdirSync(p, { recursive: true })\<close>: the directory and its ancestors.\<close>

definition mkdirSync :: "path \<Rightarrow> world \<Rightarrow> world" where
  "mkdirSync p w = w\<lparr>dirs := dirs w \<union> set (nonempty_prefixes p)\<rparr>"

definition writeFileSync :: "path \<Rightarrow> content \<Rightarrow> world \<Rightarrow> world" where
  "writeFileSync p c w = w\<lparr>files := (files w)(p := Some c)\<rparr>"

definition ensureDataDir :: "world \<Rightarrow> world" where
  "ensureDataDir w =
     (let w1 = (if \<not> existsSync w DATA_DIR then mkdirSync DATA_DIR w else w)
      in if \<not> existsSync w1 IMAGES_DIR then mkdirSync IMAGES_DIR w1 else w1)"

subsection \<open>Exceptions and responses\<close>

text \<open>
  The exceptions the routes can meet: \<^verbatim>\<open>JSON.parse\<close> on a text that is not JSON,
  a method call on \<^verbatim>\<open>undefined\<close> (the argument names the method), and a system
  error of \<^verbatim>\<open>fs\<close> (the argument is its code). Every route catches them and answers
  500 with the exception's message. Failures of the disk itself (permissions, space)
  are not part of the model.
\<close>

datatype exn = SyntaxError | TypeError string | SystemError string

datatype err_text = Text string | MessageOf exn

text \<open>
  Response bodies: \<^verbatim>\<open>{ error: text }\<close>, an entity, the store document,
  \<^verbatim>\<open>{ success: true }\<close>, or the content of a file (\<^verbatim>\<open>res.sendFile\<close>).
  \<open>PassedOn\<close> is \<^verbatim>\<open>res.sendFile\<close> on a directory or on a path it ignores:
  Express hands the request to the next handler and this route sends nothing.
\<close>

datatype body =
    ErrorBody err_text
  | EntityBody entity
  | StoreBody store_data
  | SuccessBody
  | FileBody content

datatype outcome = Respond nat body | PassedOn

text \<open>The keys of the JSON object a body is; \<^verbatim>\<open>JSON.stringify\<close> leaves out a key
  whose value is \<^verbatim>\<open>undefined\<close>.\<close>

definition present :: "string \<Rightarrow> jsval \<Rightarrow> string list" where
  "present k v = (if v = JUndefined then [] else [k])"

definition present_collection :: "string \<Rightarrow> entity list option \<Rightarrow> string list" where
  "present_collection k v = (case v of None \<Rightarrow> [] | Some xs \<Rightarrow> [k])"

fun entity_keys :: "entity \<Rightarrow> string list" where
  "entity_keys (GeneratedImage i c f t) =
     [''id''] @ present ''cameraName'' c @ [''imageFile'', ''timestamp'']"
| "entity_keys (VisionAnalysis i c f k r t) =
     [''id''] @ present ''cameraName'' c @ [''imageFile''] @ present ''task'' k
       @ present ''result'' r @ [''timestamp'']"
| "entity_keys (ChatSession i m s l) =
     [''id''] @ present ''messages'' m @ present ''startedAt'' s @ present ''lastMessageAt'' l"
| "entity_keys (SustainabilityReport i d r c t) =
     [''id''] @ present ''inputData'' d @ present ''report'' r @ present ''charts'' c
       @ [''timestamp'']"
| "entity_keys (DashboardSnapshot i n c s x t) =
     [''id''] @ present ''insights'' n @ present ''charts'' c @ present ''stats'' s
       @ present ''text'' x @ [''timestamp'']"

fun body_keys :: "body \<Rightarrow> string list" where
  "body_keys (ErrorBody t) = [''error'']"
| "body_keys (EntityBody e) = entity_keys e"
| "body_keys (StoreBody d) =
     present ''version'' (version d)
       @ present_collection ''generatedImages'' (generatedImages d)
       @ present_collection ''visionAnalyses'' (visionAnalyses d)
       @ present_collection ''chatSessions'' (chatSessions d)
       @ present_collection ''sustainabilityReports'' (sustainabilityReports d)
       @ present_collection ''dashboardSnapshots'' (dashboardSnapshots d)"
| "body_keys SuccessBody = [''success'']"
| "body_keys (FileBody c) = []"

definition internal_error :: "exn \<Rightarrow> outcome" where
  "internal_error e = Respond 500 (ErrorBody (MessageOf e))"

subsection \<open>readStore and writeStore\<close>

text \<open>The line under the comment "Migrate: add generatedImages if missing".\<close>

definition migrate :: "store_data \<Rightarrow> store_data" where
  "migrate store =
     (if generatedImages store = None then store\<lparr>generatedImages := Some []\<rparr> else store)"

definition readStore :: "world \<Rightarrow> (exn + store_data) \<times> world" where
  "readStore w =
     (let w1 = ensureDataDir w in
      if \<not> existsSync w1 STORE_FILE
      then (Inr empty_store, writeFileSync STORE_FILE (StoreDoc empty_store) w1)
      else (case files w1 STORE_FILE of
              None \<Rightarrow> (Inl (SystemError ''EISDIR''), w1)
            | Some (StoreDoc store) \<Rightarrow> (Inr (migrate store), w1)
            | Some (ImageData t) \<Rightarrow> (Inl SyntaxError, w1)
            | Some (OtherContent t) \<Rightarrow> (Inl SyntaxError, w1)))"

text \<open>The document \<open>readStore\<close> returns, when it returns one.\<close>

definition loaded_store :: "world \<Rightarrow> store_data option" where
  "loaded_store w = (case fst (readStore w) of Inl e \<Rightarrow> None | Inr store \<Rightarrow> Some store)"

definition writeStore :: "store_data \<Rightarrow> world \<Rightarrow> world" where
  "writeStore data w = writeFileSync STORE_FILE (StoreDoc data) (ensureDataDir w)"


subsection \<open>The clock and the random source\<close>

text \<open>
  What a route reads from outside during one call: \<^verbatim>\<open>Date.now()\<close> for the id and
  for the file name, the base-36 digits of \<^verbatim>\<open>Math.random()\<close> for each of the two,
  and the result of \<^verbatim>\<open>new Date().toISOString()\<close> for the timestamp of the entity
  (\<open>stamp_iso\<close>). The chat route evaluates the latter twice: first for \<open>startedAt\<close>
  (\<open>started_iso\<close>), then for \<open>lastMessageAt\<close> (\<open>stamp_iso\<close>).
\<close>

record env =
  id_millis :: nat
  id_random :: "nat list"
  file_millis :: nat
  file_random :: "nat list"
  started_iso :: string
  stamp_iso :: string

subsection \<open>The embedded-image pattern\<close>

text \<open>
  \<^verbatim>\<open>imageData.match(/^data:image\/\w+;base64,(.+)$/)\<close>: the result is the text of
  the group, or \<open>None\<close> for \<^verbatim>\<open>null\<close>. \<^verbatim>\<open>\w\<close> is a letter, a digit or the
  underscore; the dot is any character but a line terminator.
\<close>

definition word_char :: "char \<Rightarrow> bool" where
  "word_char c =
     (c \<in> set ''abcdefghijklmnopqrstuvwxyzABCDEFGHIJKLMNOPQRSTUVWXYZ0123456789_'')"

definition line_terminator :: "char \<Rightarrow> bool" where
  "line_terminator c = (c = CHR 0x0A \<or> c = CHR 0x0D)"

fun strip_prefix :: "string \<Rightarrow> string \<Rightarrow> string option" where
  "strip_prefix [] s = Some s"
| "strip_prefix (p # ps) [] = None"
| "strip_prefix (p # ps) (c # cs) = (if p = c then strip_prefix ps cs else None)"

definition match_data_uri :: "string \<Rightarrow> string option" where
  "match_data_uri s =
     (case strip_prefix ''data:image/'' s of
        None \<Rightarrow> None
      | Some r \<Rightarrow>
          if takeWhile word_char r = [] then None
          else (case strip_prefix '';base64,'' (dropWhile word_char r) of
                  None \<Rightarrow> None
                | Some p \<Rightarrow>
                    if p \<noteq> [] \<and> list_all (\<lambda>c. \<not> line_terminator c) p then Some p
                    else None))"

subsection \<open>The routes\<close>

text \<open>
  The block shared by the two image routes. The payload is any value of the request
  body. A falsy payload is skipped. \<^verbatim>\<open>imageData.match\<close> is a method of strings only:
  on any other truthy value (a number, \<^verbatim>\<open>true\<close>, an array, an object) the call
  throws a TypeError. The file is written when the payload is a string that matches; the
  result is the value of \<^verbatim>\<open>imageFile\<close>.
\<close>

definition write_image ::
  "string \<Rightarrow> jsval \<Rightarrow> world \<Rightarrow> exn + (string option \<times> world)" where
  "write_image fileName imageData w =
     (if \<not> truthy imageData then Inr (None, w)
      else (case imageData of
              JStr d \<Rightarrow>
                (case match_data_uri d of
                   None \<Rightarrow> Inr (None, w)
                 | Some payload \<Rightarrow>
                     Inr (Some fileName,
                          writeFileSync (path_join IMAGES_DIR fileName) (ImageData payload) w))
            | _ \<Rightarrow> Inl (TypeError ''match'')))"

text \<open>\<^verbatim>\<open>store[key].unshift(entry)\<close>\<close>

definition unshift :: "collection_key \<Rightarrow> entity \<Rightarrow> store_data \<Rightarrow> exn + store_data" where
  "unshift key entry store =
     (case get_collection key store of
        None \<Rightarrow> Inl (TypeError ''unshift'')
      | Some xs \<Rightarrow> Inr (set_collection key (entry # xs) store))"

text \<open>
  The ids and file names of the two image routes:
  \<^verbatim>\<open>`genimg_${Date.now()}_${Math.random().toString(36).slice(2, 6)}`\<close>,
  \<^verbatim>\<open>`gen_${Date.now()}_${Math.random().toString(36).slice(2, 6)}.png`\<close>,
  \<^verbatim>\<open>`vision_${Date.now()}`\<close> and \<^verbatim>\<open>`img_${Date.now()}.png`\<close>.
\<close>

definition generated_image_id :: "env \<Rightarrow> string" where
  "generated_image_id env =
     ''genimg_'' @ digits (id_millis env) @ ''_'' @ random_suffix (id_random env)"

definition generated_image_file :: "env \<Rightarrow> string" where
  "generated_image_file env =
     ''gen_'' @ digits (file_millis env) @ ''_'' @ random_suffix (file_random env) @ ''.png''"

definition vision_id :: "env \<Rightarrow> string" where
  "vision_id env = ''vision_'' @ digits (id_millis env)"

definition vision_image_file :: "env \<Rightarrow> string" where
  "vision_image_file env = ''img_'' @ digits (file_millis env) @ ''.png''"

text \<open>\<^verbatim>\<open>GET /data\<close>\<close>

definition get_data :: "world \<Rightarrow> outcome \<times> world" where
  "get_data w =
     (case readStore w of
        (Inl e, w1) \<Rightarrow> (internal_error e, w1)
      | (Inr store, w1) \<Rightarrow> (Respond 200 (StoreBody store), w1))"

text \<open>\<^verbatim>\<open>POST /data/generated-image\<close>\<close>

definition post_generated_image ::
  "env \<Rightarrow> jsval \<Rightarrow> jsval \<Rightarrow> world \<Rightarrow> outcome \<times> world" where
  "post_generated_image env cameraName imageData w =
     (case readStore w of
        (Inl e, w1) \<Rightarrow> (internal_error e, w1)
      | (Inr store, w1) \<Rightarrow>
          (let ident = generated_image_id env;
               fileName = generated_image_file env
           in case write_image fileName imageData w1 of
                Inl e \<Rightarrow> (internal_error e, w1)
              | Inr (imageFile, w2) \<Rightarrow>
                  (case imageFile of
                     None \<Rightarrow>
                       (Respond 400 (ErrorBody (Text ''No valid image data provided'')), w2)
                   | Some f \<Rightarrow>
                       if f = []
                       then (Respond 400 (ErrorBody (Text ''No valid image data provided'')), w2)
                       else (let entry = GeneratedImage ident cameraName (Some f) (stamp_iso env)
                             in case unshift KgeneratedImages entry store of
                                  Inl e \<Rightarrow> (internal_error e, w2)
                                | Inr store' \<Rightarrow>
                                    (Respond 200 (EntityBody entry), writeStore store' w2)))))"

text \<open>\<^verbatim>\<open>POST /data/vision\<close>\<close>

definition post_vision ::
  "env \<Rightarrow> jsval \<Rightarrow> jsval \<Rightarrow> jsval \<Rightarrow> jsval \<Rightarrow> world \<Rightarrow> outcome \<times> world" where
  "post_vision env cameraName imageData task result w =
     (case readStore w of
        (Inl e, w1) \<Rightarrow> (internal_error e, w1)
      | (Inr store, w1) \<Rightarrow>
          (let ident = vision_id env;
               fileName = vision_image_file env
           in case write_image fileName imageData w1 of
                Inl e \<Rightarrow> (internal_error e, w1)
              | Inr (imageFile, w2) \<Rightarrow>
                  (let entry = VisionAnalysis ident cameraName imageFile task result
                                 (stamp_iso env)
                   in case unshift KvisionAnalyses entry store of
                        Inl e \<Rightarrow> (internal_error e, w2)
                      | Inr store' \<Rightarrow>
                          (Respond 200 (EntityBody entry), writeStore store' w2))))"

text \<open>\<^verbatim>\<open>Array.prototype.findIndex\<close>; \<open>None\<close> is the result -1.\<close>

fun findIndex :: "('a \<Rightarrow> bool) \<Rightarrow> 'a list \<Rightarrow> nat option" where
  "findIndex P [] = None"
| "findIndex P (x # xs) = (if P x then Some 0 else map_option Suc (findIndex P xs))"

text \<open>\<^verbatim>\<open>id || `chat_${Date.now()}`\<close>; the id of the body is absent or a string.\<close>

definition chat_session_id :: "env \<Rightarrow> string option \<Rightarrow> string" where
  "chat_session_id env ident =
     (case ident of
        None \<Rightarrow> ''chat_'' @ digits (id_millis env)
      | Some i \<Rightarrow> if i \<noteq> [] then i else ''chat_'' @ digits (id_millis env))"

text \<open>\<^verbatim>\<open>POST /data/chat\<close>: the index of the session with the id of the body, the
  session object the route builds, and the route.\<close>

definition existingIndex :: "string option \<Rightarrow> entity list \<Rightarrow> nat option" where
  "existingIndex ident sessions = findIndex (\<lambda>s. Some (entity_id s) = ident) sessions"

definition chat_session :: "env \<Rightarrow> string option \<Rightarrow> jsval \<Rightarrow> entity list \<Rightarrow> entity" where
  "chat_session env ident messages sessions =
     ChatSession
       (chat_session_id env ident)
       messages
       (case existingIndex ident sessions of
          Some i \<Rightarrow> entity_startedAt (sessions ! i)
        | None \<Rightarrow> JStr (started_iso env))
       (JStr (stamp_iso env))"

definition post_chat :: "env \<Rightarrow> string option \<Rightarrow> jsval \<Rightarrow> world \<Rightarrow> outcome \<times> world" where
  "post_chat env ident messages w =
     (case readStore w of
        (Inl e, w1) \<Rightarrow> (internal_error e, w1)
      | (Inr store, w1) \<Rightarrow>
          (case chatSessions store of
             None \<Rightarrow> (internal_error (TypeError ''findIndex''), w1)
           | Some sessions \<Rightarrow>
               (let session = chat_session env ident messages sessions;
                    sessions' = (case existingIndex ident sessions of
                                   Some i \<Rightarrow> sessions[i := session]
                                 | None \<Rightarrow> session # sessions)
                in (Respond 200 (EntityBody session),
                    writeStore (store\<lparr>chatSessions := Some sessions'\<rparr>) w1))))"

text \<open>\<^verbatim>\<open>POST /data/sustainability\<close>\<close>

definition post_sustainability ::
  "env \<Rightarrow> jsval \<Rightarrow> jsval \<Rightarrow> jsval \<Rightarrow> world \<Rightarrow> outcome \<times> world" where
  "post_sustainability env inputData report charts w =
     (case readStore w of
        (Inl e, w1) \<Rightarrow> (internal_error e, w1)
      | (Inr store, w1) \<Rightarrow>
          (let entry = SustainabilityReport (''sust_'' @ digits (id_millis env)) inputData report
                         (js_or charts (JArr [])) (stamp_iso env)
           in case unshift KsustainabilityReports entry store of
                Inl e \<Rightarrow> (internal_error e, w1)
              | Inr store' \<Rightarrow> (Respond 200 (EntityBody entry), writeStore store' w1)))"

text \<open>\<^verbatim>\<open>POST /data/dashboard\<close>\<close>

definition post_dashboard ::
  "env \<Rightarrow> jsval \<Rightarrow> jsval \<Rightarrow> jsval \<Rightarrow> jsval \<Rightarrow> world \<Rightarrow> outcome \<times> world" where
  "post_dashboard env insights charts stats text w =
     (case readStore w of
        (Inl e, w1) \<Rightarrow> (internal_error e, w1)
      | (Inr store, w1) \<Rightarrow>
          (let entry = DashboardSnapshot (''dash_'' @ digits (id_millis env)) insights
                         (js_or charts (JArr [])) (js_or stats (JObj [])) (js_or text (JStr []))
                         (stamp_iso env)
           in case unshift KdashboardSnapshots entry store of
                Inl e \<Rightarrow> (internal_error e, w1)
              | Inr store' \<Rightarrow> (Respond 200 (EntityBody entry), writeStore store' w1)))"

text \<open>
  \<^verbatim>\<open>collectionMap[collection]\<close>: the five own keys of the table; a name that
  \<^verbatim>\<open>Object.prototype\<close> defines reads as an inherited, truthy value, which is then
  no key of the store; any other name reads as \<^verbatim>\<open>undefined\<close>.
\<close>

datatype map_lookup = Mapped collection_key | Inherited | Unmapped

definition object_prototype_keys :: "string list" where
  "object_prototype_keys =
     [''constructor'', ''__defineGetter__'', ''__defineSetter__'', ''hasOwnProperty'',
      ''__lookupGetter__'', ''__lookupSetter__'', ''isPrototypeOf'', ''propertyIsEnumerable'',
      ''toString'', ''valueOf'', ''__proto__'', ''toLocaleString'']"

definition collectionMap :: "string \<Rightarrow> map_lookup" where
  "collectionMap c =
     (if c = ''generated-images'' then Mapped KgeneratedImages
      else if c = ''vision'' then Mapped KvisionAnalyses
      else if c = ''chat'' then Mapped KchatSessions
      else if c = ''sustainability'' then Mapped KsustainabilityReports
      else if c = ''dashboard'' then Mapped KdashboardSnapshots
      else if c \<in> set object_prototype_keys then Inherited
      else Unmapped)"

text \<open>\<^verbatim>\<open>fs.unlinkSync\<close>: removes a file; fails on a directory and on a missing path.\<close>

definition unlinkSync :: "path \<Rightarrow> world \<Rightarrow> exn + world" where
  "unlinkSync p w =
     (if files w p \<noteq> None then Inr (w\<lparr>files := (files w)(p := None)\<rparr>)
      else if p \<in> dirs w then Inl (SystemError ''EISDIR'')
      else Inl (SystemError ''ENOENT''))"

text \<open>The block of the delete route under the comment "Delete associated image file".\<close>

definition delete_image_file :: "collection_key \<Rightarrow> entity \<Rightarrow> world \<Rightarrow> exn + world" where
  "delete_image_file key item w =
     (if key = KvisionAnalyses \<or> key = KgeneratedImages
      then (case entity_imageFile item of
              None \<Rightarrow> Inr w
            | Some f \<Rightarrow>
                if f = [] then Inr w
                else (let imagePath = path_join IMAGES_DIR f
                      in if existsSync w imagePath then unlinkSync imagePath w else Inr w))
      else Inr w)"

text \<open>\<^verbatim>\<open>arr.splice(idx, 1)\<close>\<close>

definition splice :: "nat \<Rightarrow> 'a list \<Rightarrow> 'a list" where
  "splice idx arr = take idx arr @ drop (Suc idx) arr"

text \<open>\<^verbatim>\<open>DELETE /data/:collection/:id\<close>\<close>

definition delete_entry :: "string \<Rightarrow> string \<Rightarrow> world \<Rightarrow> outcome \<times> world" where
  "delete_entry collection ident w =
     (case readStore w of
        (Inl e, w1) \<Rightarrow> (internal_error e, w1)
      | (Inr store, w1) \<Rightarrow>
          (case collectionMap collection of
             Unmapped \<Rightarrow> (Respond 400 (ErrorBody (Text ''Invalid collection'')), w1)
           | Inherited \<Rightarrow> (internal_error (TypeError ''findIndex''), w1)
           | Mapped key \<Rightarrow>
               (case get_collection key store of
                  None \<Rightarrow> (internal_error (TypeError ''findIndex''), w1)
                | Some arr \<Rightarrow>
                    (case findIndex (\<lambda>item. entity_id item = ident) arr of
                       None \<Rightarrow> (Respond 404 (ErrorBody (Text ''Entry not found'')), w1)
                     | Some idx \<Rightarrow>
                         (case delete_image_file key (arr ! idx) w1 of
                            Inl e \<Rightarrow> (internal_error e, w1)
                          | Inr w2 \<Rightarrow>
                              (Respond 200 SuccessBody,
                               writeStore (set_collection key (splice idx arr) store) w2))))))"

text \<open>
  \<^verbatim>\<open>res.sendFile\<close> of Express, on the normalised path the route gives it: the
  content of the file; nothing of a directory, and nothing of a path with a segment that
  begins with a dot (the default \<^verbatim>\<open>dotfiles: 'ignore'\<close>). A leading \<^verbatim>\<open>..\<close> of a
  path stands for an ancestor of the application directory, whose own name is taken to
  begin with no dot.
\<close>

definition dotfile_segment :: "string \<Rightarrow> bool" where
  "dotfile_segment seg = (seg \<noteq> ''..'' \<and> length seg > 1 \<and> startsWith seg ''.'')"

definition sendFile :: "path \<Rightarrow> world \<Rightarrow> outcome" where
  "sendFile p w =
     (if list_ex dotfile_segment p then PassedOn
      else (case files w p of None \<Rightarrow> PassedOn | Some c \<Rightarrow> Respond 200 (FileBody c)))"

text \<open>\<^verbatim>\<open>GET /data/images/:filename\<close>\<close>

definition get_image :: "string \<Rightarrow> world \<Rightarrow> outcome \<times> world" where
  "get_image filename w =
     (let filePath = path_join IMAGES_DIR filename
      in if \<not> existsSync w filePath
         then (Respond 404 (ErrorBody (Text ''Image not found'')), w)
         else (sendFile filePath w, w))"

text \<open>The router: one constructor for each route, with the fields of its request.\<close>

datatype request =
    GetData
  | PostGeneratedImage jsval jsval
  | PostVision jsval jsval jsval jsval
  | PostChat "string option" jsval
  | PostSustainability jsval jsval jsval
  | PostDashboard jsval jsval jsval jsval
  | DeleteEntry string string
  | GetImage string

fun router :: "env \<Rightarrow> request \<Rightarrow> world \<Rightarrow> outcome \<times> world" where
  "router env GetData w = get_data w"
| "router env (PostGeneratedImage cameraName imageData) w =
     post_generated_image env cameraName imageData w"
| "router env (PostVision cameraName imageData task result) w =
     post_vision env cameraName imageData task result w"
| "router env (PostChat ident messages) w = post_chat env ident messages w"
| "router env (PostSustainability inputData report charts) w =
     post_sustainability env inputData report charts w"
| "router env (PostDashboard insights charts stats text) w =
     post_dashboard env insights charts stats text w"
| "router env (DeleteEntry collection ident) w = delete_entry collection ident w"
| "router env (GetImage filename) w = get_image filename w"

text \<open>The files of the images directory: the paths one segment below it.\<close>

definition in_images_dir :: "path \<Rightarrow> bool" where
  "in_images_dir p = (length p = Suc (length IMAGES_DIR) \<and> butlast p = IMAGES_DIR)"

text \<open>The group the pattern captures in the payload of a request, when the payload is a
  string and matches; and the payloads on which \<^verbatim>\<open>match\<close> can be called.\<close>

definition data_uri_payload :: "jsval \<Rightarrow> string option" where
  "data_uri_payload imageData = (case imageData of JStr d \<Rightarrow> match_data_uri d | _ \<Rightarrow> None)"

fun is_string :: "jsval \<Rightarrow> bool" where
  "is_string (JStr s) = True"
| "is_string JUndefined = False"
| "is_string JNull = False"
| "is_string (JBool b) = False"
| "is_string (JNum n) = False"
| "is_string (JArr xs) = False"
| "is_string (JObj kvs) = False"

text \<open>
  What is on disk where the store file is, read without the code of \<open>readStore\<close>: the
  stored document with a missing \<open>generatedImages\<close> made empty, the empty document
  when nothing is there, and no document for a text that does not parse or a directory.
\<close>

definition document_at_load :: "world \<Rightarrow> store_data option" where
  "document_at_load w =
     (case files w STORE_FILE of
        Some (StoreDoc d) \<Rightarrow>
          Some (d\<lparr>generatedImages :=
                  Some (case generatedImages d of None \<Rightarrow> [] | Some xs \<Rightarrow> xs)\<rparr>)
      | Some (ImageData t) \<Rightarrow> None
      | Some (OtherContent t) \<Rightarrow> None
      | None \<Rightarrow> if STORE_FILE \<in> dirs w then None else Some empty_store)"

text \<open>The files of the images directory that exist after a call and did not before.\<close>

definition new_image_files :: "world \<Rightarrow> world \<Rightarrow> path set" where
  "new_image_files w w' = {p. in_images_dir p \<and> files w p = None \<and> files w' p \<noteq> None}"



text \<open>The path the delete route looks at for the image of an entity: one for an entity
  of the two image collections with a truthy \<open>imageFile\<close>, none otherwise.\<close>

definition owned_image_path :: "collection_key \<Rightarrow> entity \<Rightarrow> path option" where
  "owned_image_path key item =
     (if key = KvisionAnalyses \<or> key = KgeneratedImages
      then (case entity_imageFile item of
              None \<Rightarrow> None
            | Some f \<Rightarrow> if f = [] then None else Some (path_join IMAGES_DIR f))
      else None)"

text \<open>A path that is a directory, and no file, when a route has ensured the data
  directories.\<close>

definition names_directory :: "world \<Rightarrow> path \<Rightarrow> bool" where
  "names_directory w p = (files w p = None \<and> p \<in> dirs (ensureDataDir w))"

text \<open>The operations of the store: the load, the five saves and the delete, that is,
  every route but the one that serves an image.\<close>

fun persistence_operation :: "request \<Rightarrow> bool" where
  "persistence_operation GetData = True"
| "persistence_operation (GetImage filename) = False"
| "persistence_operation (PostGeneratedImage cameraName imageData) = True"
| "persistence_operation (PostVision cameraName imageData task result) = True"
| "persistence_operation (PostChat ident messages) = True"
| "persistence_operation (PostSustainability inputData report charts) = True"
| "persistence_operation (PostDashboard insights charts stats text) = True"
| "persistence_operation (DeleteEntry collection ident) = True"

text \<open>A store document with all five collections, as \<^verbatim>\<open>interface StoreData\<close>
  declares it.\<close>

definition complete_store :: "store_data \<Rightarrow> bool" where
  "complete_store d =
     (generatedImages d \<noteq> None \<and> visionAnalyses d \<noteq> None \<and> chatSessions d \<noteq> None
      \<and> sustainabilityReports d \<noteq> None \<and> dashboardSnapshots d \<noteq> None)"




section \<open>Properties of the error classification\<close>

lemmas lower_defs = toLowerCase_def lower_char_def lower_az_def lower_latin1_def

lemma parse_cases:
  "code (parseGeminiError e) = class_code (amended_classify e)
   \<and> status (parseGeminiError e) = class_status (amended_classify e)
   \<and> message (parseGeminiError e) =
       canned_message (amended_classify e)
         @ (if amended_classify e = InternalError then error_text e else [])"
  by (simp add: parseGeminiError_def amended_classify_def Let_def rate_limit_signal_def
      unavailable_signal_def bad_request_signal_def auth_signal_def)




text \<open>
  Claim C1, as stated, fails: for an error of the internal-error class the message sent
  to the caller is the fixed prefix followed by the text of the upstream error, here
  \<open>socket hang up\<close>.
\<close>

theorem C1_internal_error_leaks_upstream_text:
  "handleGeminiError ''analyze-image''
      \<lparr>err_message = Some ''socket hang up'', err_string = ''Error: socket hang up'',
       err_status = JUndefined, err_statusCode = JUndefined,
       err_httpStatusCode = JUndefined, err_code = JUndefined\<rparr>
   = \<lparr>console_label = ''analyze-image error [INTERNAL_ERROR]:'',
      console_value = ''socket hang up'',
      reply_status = 500,
      reply_error = ''Erro interno ao chamar a API Gemini: socket hang up'',
      reply_code = ''INTERNAL_ERROR''\<rparr>
   \<and> includes_js ''Erro interno ao chamar a API Gemini: socket hang up'' ''socket hang up''"
  by (simp add: handleGeminiError_def parseGeminiError_def error_text_def error_status_def
      js_or_def Let_def lower_defs INTERNAL_ERROR_PREFIX_def)

text \<open>
  Claim C1, amended: for every error of the rate-limited, service-unavailable,
  bad-request and auth-error classes the message sent to the caller is the fixed message
  of the class, whatever the upstream text; for the internal-error class it is the fixed
  prefix followed by the upstream text. Status and code are those of the class.
\<close>

theorem handleGeminiError_reply:
  "reply_status (handleGeminiError endpoint e) = class_status (amended_classify e)
   \<and> reply_code (handleGeminiError endpoint e) = class_code (amended_classify e)
   \<and> reply_error (handleGeminiError endpoint e) =
       canned_message (amended_classify e)
         @ (if amended_classify e = InternalError then error_text e else [])"
  using parse_cases [of e] by (simp add: handleGeminiError_def Let_def)

text \<open>A 401 of the remote model is answered 403 with the fixed authentication message.\<close>

theorem handleGeminiError_reply_witness:
  "reply_status (handleGeminiError ''store-insights''
      \<lparr>err_message = Some ''permission missing'', err_string = ''Error'',
       err_status = JNum 401, err_statusCode = JUndefined,
       err_httpStatusCode = JUndefined, err_code = JUndefined\<rparr>) = 403
   \<and> reply_error (handleGeminiError ''store-insights''
      \<lparr>err_message = Some ''permission missing'', err_string = ''Error'',
       err_status = JNum 401, err_statusCode = JUndefined,
       err_httpStatusCode = JUndefined, err_code = JUndefined\<rparr>) = AUTH_ERROR_MESSAGE"
proof -
  have "amended_classify
      \<lparr>err_message = Some ''permission missing'', err_string = ''Error'',
       err_status = JNum 401, err_statusCode = JUndefined,
       err_httpStatusCode = JUndefined, err_code = JUndefined\<rparr> = AuthError"
    by (simp add: amended_classify_def rate_limit_signal_def unavailable_signal_def
        bad_request_signal_def auth_signal_def error_text_def error_status_def
        js_or_def lower_defs)
  then show ?thesis
    using handleGeminiError_reply [of "''store-insights''"
      "\<lparr>err_message = Some ''permission missing'', err_string = ''Error'',
       err_status = JNum 401, err_statusCode = JUndefined,
       err_httpStatusCode = JUndefined, err_code = JUndefined\<rparr>"]
    by simp
qed


section \<open>Properties of the persistence store\<close>

subsection \<open>Paths, files and the store file\<close>

lemma DATA_DIR_eq: "DATA_DIR = [''data'']"
  by (simp add: DATA_DIR_def dirname_def path_join_def push_segment_def)

lemma IMAGES_DIR_eq: "IMAGES_DIR = [''data'', ''images'']"
  by (simp add: IMAGES_DIR_def DATA_DIR_eq path_join_def push_segment_def)

lemma STORE_FILE_eq: "STORE_FILE = [''data'', ''store.json'']"
  by (simp add: STORE_FILE_def DATA_DIR_eq path_join_def push_segment_def)

lemma files_ensureDataDir: "files (ensureDataDir w) = files w"
  by (simp add: ensureDataDir_def mkdirSync_def Let_def)

lemma dirs_ensureDataDir: "dirs (ensureDataDir w) \<subseteq> dirs w \<union> {DATA_DIR, IMAGES_DIR}"
  by (auto simp add: ensureDataDir_def mkdirSync_def Let_def DATA_DIR_eq IMAGES_DIR_eq)

lemma STORE_FILE_dirs_ensure: "STORE_FILE \<in> dirs (ensureDataDir w) \<longleftrightarrow> STORE_FILE \<in> dirs w"
  by (auto simp add: ensureDataDir_def mkdirSync_def Let_def DATA_DIR_eq IMAGES_DIR_eq STORE_FILE_eq)

lemma existsSync_ensure: "existsSync (ensureDataDir w) STORE_FILE = existsSync w STORE_FILE"
  by (simp add: existsSync_def files_ensureDataDir STORE_FILE_dirs_ensure)

lemma readStore_doc:
  "files w STORE_FILE = Some (StoreDoc d) \<Longrightarrow> readStore w = (Inr (migrate d), ensureDataDir w)"
  by (simp add: readStore_def Let_def existsSync_def files_ensureDataDir)

lemma readStore_fresh:
  "\<not> existsSync w STORE_FILE \<Longrightarrow>
   readStore w = (Inr empty_store, writeFileSync STORE_FILE (StoreDoc empty_store) (ensureDataDir w))"
  by (simp add: readStore_def Let_def existsSync_ensure)

lemma files_writeStore: "files (writeStore s w) = (files w)(STORE_FILE := Some (StoreDoc s))"
  by (simp add: writeStore_def writeFileSync_def files_ensureDataDir)

lemma split_slash_plain: "CHR ''/'' \<notin> set s \<Longrightarrow> split_slash s = [s]"
  by (induction s) auto

lemma path_join_plain:
  "CHR ''/'' \<notin> set name \<Longrightarrow> name \<noteq> [] \<Longrightarrow> name \<noteq> ''.'' \<Longrightarrow> name \<noteq> ''..''
   \<Longrightarrow> path_join dir name = dir @ [name]"
  by (simp add: path_join_def split_slash_plain push_segment_def)

lemma digits_chars: "set (digits n) \<subseteq> set ''0123456789''"
proof (induction n rule: digits.induct)
  case (1 n)
  show ?case
  proof (cases "n < 10")
    case True
    then have "''0123456789'' ! n \<in> set ''0123456789''"
      by (intro nth_mem) simp
    with True show ?thesis by (subst digits.simps) simp
  next
    case False
    have "n mod 10 < 10" by simp
    then have "''0123456789'' ! (n mod 10) \<in> set ''0123456789''"
      by (intro nth_mem) simp
    with False 1 show ?thesis by (subst digits.simps) auto
  qed
qed

lemma digits_no_slash: "CHR ''/'' \<notin> set (digits n)"
  using digits_chars [of n] by auto







lemma random_suffix_no_slash: "CHR ''/'' \<notin> set (random_suffix ds)"
proof -
  have "base36 ! (d mod 36) \<in> set base36" for d
    by (intro nth_mem) (simp add: base36_def)
  then have "set (random_suffix ds) \<subseteq> set base36"
    by (auto simp add: random_suffix_def dest: in_set_takeD)
  then show ?thesis by (auto simp add: base36_def)
qed

lemma generated_image_file_plain:
  "path_join dir (generated_image_file env) = dir @ [generated_image_file env]"
  unfolding generated_image_file_def
  by (rule path_join_plain) (simp_all add: digits_no_slash random_suffix_no_slash)



lemma vision_image_file_plain:
  "path_join dir (vision_image_file env) = dir @ [vision_image_file env]"
  unfolding vision_image_file_def
  by (rule path_join_plain) (simp_all add: digits_no_slash)


lemma store_not_image_path: "STORE_FILE \<noteq> IMAGES_DIR @ [f]"
  by (simp add: IMAGES_DIR_eq STORE_FILE_eq)

lemma store_not_in_images_dir: "\<not> in_images_dir STORE_FILE"
  by (simp add: in_images_dir_def IMAGES_DIR_eq STORE_FILE_eq)

lemma version_migrate: "version (migrate d) = version d"
  by (simp add: migrate_def)

lemma migrate_idem: "migrate (migrate d) = migrate d"
  by (simp add: migrate_def)

lemma loaded_store_cases:
  assumes "loaded_store w = Some store"
  shows "(\<exists>d. files w STORE_FILE = Some (StoreDoc d) \<and> store = migrate d
            \<and> readStore w = (Inr store, ensureDataDir w))
       \<or> (\<not> existsSync w STORE_FILE \<and> store = empty_store
            \<and> readStore w = (Inr store,
                 writeFileSync STORE_FILE (StoreDoc empty_store) (ensureDataDir w)))"
proof (cases "existsSync w STORE_FILE")
  case False
  with assms show ?thesis
    by (simp add: loaded_store_def readStore_fresh)
next
  case True
  show ?thesis
  proof (cases "files w STORE_FILE")
    case None
    with True assms show ?thesis
      by (simp add: loaded_store_def readStore_def Let_def existsSync_ensure files_ensureDataDir)
  next
    case (Some c)
    with assms show ?thesis
      by (cases c)
        (simp_all add: loaded_store_def readStore_def Let_def existsSync_def files_ensureDataDir)
  qed
qed

lemma loaded_store_readStore:
  assumes "loaded_store w = Some store"
  shows "\<exists>w1 d0. readStore w = (Inr store, w1)
           \<and> files w1 = (if existsSync w STORE_FILE then files w
                         else (files w)(STORE_FILE := Some (StoreDoc empty_store)))
           \<and> files w1 STORE_FILE = Some (StoreDoc d0) \<and> version d0 = version store
           \<and> migrate d0 = store"
  using loaded_store_cases [OF assms]
proof (elim disjE exE conjE)
  fix d
  assume d: "files w STORE_FILE = Some (StoreDoc d)" "store = migrate d"
    and r: "readStore w = (Inr store, ensureDataDir w)"
  from d have "existsSync w STORE_FILE" by (simp add: existsSync_def)
  with d r show ?thesis
    by (intro exI [of _ "ensureDataDir w"] exI [of _ d])
      (simp add: files_ensureDataDir version_migrate)
next
  assume n: "\<not> existsSync w STORE_FILE" "store = empty_store"
    and r: "readStore w =
      (Inr store, writeFileSync STORE_FILE (StoreDoc empty_store) (ensureDataDir w))"
  have "migrate empty_store = empty_store" by (simp add: migrate_def empty_store_def)
  with n r show ?thesis
    by (intro exI [of _ "writeFileSync STORE_FILE (StoreDoc empty_store) (ensureDataDir w)"]
        exI [of _ empty_store])
      (simp add: writeFileSync_def files_ensureDataDir)
qed


lemma loaded_store_fresh: "loaded_store \<lparr>dirs = {}, files = \<lambda>p. None\<rparr> = Some empty_store"
  by (simp add: loaded_store_def readStore_fresh existsSync_def)

lemma loaded_store_doc:
  "files w STORE_FILE = Some (StoreDoc d) \<Longrightarrow> loaded_store w = Some (migrate d)"
  by (simp add: loaded_store_def readStore_doc)


lemma loaded_store_document_at_load: "loaded_store w = document_at_load w"
proof (cases "files w STORE_FILE")
  case None
  show ?thesis
  proof (cases "STORE_FILE \<in> dirs w")
    case True
    with None show ?thesis
      by (simp add: loaded_store_def readStore_def Let_def existsSync_def files_ensureDataDir
          STORE_FILE_dirs_ensure document_at_load_def)
  next
    case False
    with None have "\<not> existsSync w STORE_FILE" by (simp add: existsSync_def)
    with None False show ?thesis
      by (simp add: loaded_store_def readStore_fresh document_at_load_def)
  qed
next
  case (Some c)
  then show ?thesis
    by (cases c)
      (auto simp add: loaded_store_def readStore_def Let_def existsSync_def files_ensureDataDir
        document_at_load_def migrate_def split: option.splits)
qed


lemma document_at_load_fresh:
  "document_at_load \<lparr>dirs = {}, files = \<lambda>p. None\<rparr> = Some empty_store"
  by (simp add: document_at_load_def)

lemma document_at_load_doc:
  "files w STORE_FILE = Some (StoreDoc d) \<Longrightarrow> document_at_load w = Some (migrate d)"
  using loaded_store_doc [of w d] by (simp add: loaded_store_document_at_load)

lemma document_at_load_readStore:
  assumes "document_at_load w = Some store"
  shows "\<exists>w1. readStore w = (Inr store, w1)
           \<and> files w1 = (if existsSync w STORE_FILE then files w
                         else (files w)(STORE_FILE := Some (StoreDoc empty_store)))"
  using loaded_store_readStore [of w store] assms
  by (auto simp add: loaded_store_document_at_load)


lemma upd_store_only:
  "(if c then f else f(STORE_FILE := v))(STORE_FILE := y) = f(STORE_FILE := y)"
  by (auto simp add: fun_eq_iff)



lemma new_image_files_store_only:
  "files w' = (files w)(STORE_FILE := y) \<Longrightarrow> new_image_files w w' = {}"
  by (auto simp add: new_image_files_def store_not_in_images_dir)

subsection \<open>Strings and the embedded-image pattern\<close>

lemma startsWith_iff: "startsWith s p \<longleftrightarrow> (\<exists>r. s = p @ r)"
  by (induction s p rule: startsWith.induct) auto

lemma includes_js_iff: "includes_js s sub \<longleftrightarrow> (\<exists>pre post. s = pre @ sub @ post)"
proof (induction s)
  case Nil
  then show ?case by auto
next
  case (Cons x xs)
  show ?case
  proof
    assume "includes_js (x # xs) sub"
    then consider "startsWith (x # xs) sub" | "includes_js xs sub" by auto
    then show "\<exists>pre post. x # xs = pre @ sub @ post"
    proof cases
      case 1
      then obtain r where "x # xs = sub @ r" by (auto simp add: startsWith_iff)
      then have "x # xs = [] @ sub @ r" by simp
      then show ?thesis by blast
    next
      case 2
      with Cons.IH obtain pre post where "xs = pre @ sub @ post" by blast
      then have "x # xs = (x # pre) @ sub @ post" by simp
      then show ?thesis by blast
    qed
  next
    assume "\<exists>pre post. x # xs = pre @ sub @ post"
    then obtain pre post where e: "x # xs = pre @ sub @ post" by blast
    show "includes_js (x # xs) sub"
    proof (cases pre)
      case Nil
      with e have "startsWith (x # xs) sub" by (auto simp add: startsWith_iff)
      then show ?thesis by simp
    next
      case (Cons y ys)
      with e have "xs = ys @ sub @ post" by simp
      with Cons.IH have "includes_js xs sub" by blast
      then show ?thesis by simp
    qed
  qed
qed

lemma strip_prefix_iff: "strip_prefix p s = Some r \<longleftrightarrow> s = p @ r"
  by (induction p s rule: strip_prefix.induct) auto

lemma takeWhile_stop:
  "\<forall>c \<in> set w. P c \<Longrightarrow> \<not> P x \<Longrightarrow> takeWhile P (w @ x # r) = w \<and> dropWhile P (w @ x # r) = x # r"
  by (induction w) auto

lemma match_data_uri_iff:
  "match_data_uri s = Some p \<longleftrightarrow>
     (\<exists>w. s = ''data:image/'' @ w @ '';base64,'' @ p \<and> w \<noteq> [] \<and> (\<forall>c \<in> set w. word_char c)
          \<and> p \<noteq> [] \<and> (\<forall>c \<in> set p. \<not> line_terminator c))"
proof
  assume m: "match_data_uri s = Some p"
  then obtain r where r: "strip_prefix ''data:image/'' s = Some r"
    by (auto simp add: match_data_uri_def split: option.splits)
  with m have w: "takeWhile word_char r \<noteq> []"
    by (auto simp add: match_data_uri_def split: if_splits)
  with m r obtain q where q: "strip_prefix '';base64,'' (dropWhile word_char r) = Some q"
    by (auto simp add: match_data_uri_def split: option.splits if_splits)
  with m r w have p: "q = p" "p \<noteq> []" "list_all (\<lambda>c. \<not> line_terminator c) p"
    by (auto simp add: match_data_uri_def split: if_splits)
  from r have "s = ''data:image/'' @ r" by (simp only: strip_prefix_iff)
  moreover have "r = takeWhile word_char r @ dropWhile word_char r" by simp
  moreover from q p(1) have "dropWhile word_char r = '';base64,'' @ p"
    by (simp only: strip_prefix_iff)
  ultimately have "s = ''data:image/'' @ takeWhile word_char r @ '';base64,'' @ p"
    by metis
  moreover have "\<forall>c \<in> set (takeWhile word_char r). word_char c"
    by (auto dest: set_takeWhileD)
  ultimately show "\<exists>w. s = ''data:image/'' @ w @ '';base64,'' @ p \<and> w \<noteq> []
      \<and> (\<forall>c \<in> set w. word_char c) \<and> p \<noteq> [] \<and> (\<forall>c \<in> set p. \<not> line_terminator c)"
    using w p(2,3) by (auto simp add: list_all_iff)
next
  assume "\<exists>w. s = ''data:image/'' @ w @ '';base64,'' @ p \<and> w \<noteq> [] \<and> (\<forall>c \<in> set w. word_char c)
          \<and> p \<noteq> [] \<and> (\<forall>c \<in> set p. \<not> line_terminator c)"
  then obtain w where w: "s = ''data:image/'' @ w @ '';base64,'' @ p" "w \<noteq> []"
    "\<forall>c \<in> set w. word_char c" "p \<noteq> []" "\<forall>c \<in> set p. \<not> line_terminator c"
    by blast
  have r: "strip_prefix ''data:image/'' s = Some (w @ '';base64,'' @ p)"
    using w(1) by (simp only: strip_prefix_iff)
  have semi: "\<not> word_char CHR '';''" by (simp add: word_char_def)
  have "w @ '';base64,'' @ p = w @ CHR '';'' # (''base64,'' @ p)" by simp
  with takeWhile_stop [OF w(3) semi, of "''base64,'' @ p"]
  have t: "takeWhile word_char (w @ '';base64,'' @ p) = w"
    and d: "dropWhile word_char (w @ '';base64,'' @ p) = '';base64,'' @ p"
    by simp_all
  have q: "strip_prefix '';base64,'' ('';base64,'' @ p) = Some p"
    by (simp only: strip_prefix_iff)
  from r t d q w(2,4,5) show "match_data_uri s = Some p"
    by (simp add: match_data_uri_def list_all_iff)
qed


lemma write_image_none:
  "data_uri_payload imageData = None \<Longrightarrow> \<not> truthy imageData \<or> is_string imageData \<Longrightarrow>
   write_image fn imageData w = Inr (None, w)"
  by (cases imageData) (auto simp add: write_image_def data_uri_payload_def)



lemma data_uri_payload_not_string:
  "\<not> is_string imageData \<Longrightarrow> data_uri_payload imageData = None"
  by (cases imageData) (auto simp add: data_uri_payload_def)

lemma write_image_generated_store:
  "write_image (generated_image_file env) imageData w = Inr (imageFile, w2) \<Longrightarrow>
   files w2 STORE_FILE = files w STORE_FILE"
  by (cases imageData)
    (auto simp add: write_image_def writeFileSync_def generated_image_file_plain
      store_not_image_path split: option.splits if_splits)

lemma write_image_vision_store:
  "write_image (vision_image_file env) imageData w = Inr (imageFile, w2) \<Longrightarrow>
   files w2 STORE_FILE = files w STORE_FILE"
  by (cases imageData)
    (auto simp add: write_image_def writeFileSync_def vision_image_file_plain
      store_not_image_path split: option.splits if_splits)

subsection \<open>Searching a collection\<close>

lemma findIndex_None: "findIndex P xs = None \<longleftrightarrow> (\<forall>x \<in> set xs. \<not> P x)"
  by (induction xs) auto




lemma complete_set_collection:
  "complete_store s \<Longrightarrow> complete_store (set_collection key xs s)"
  by (cases key) (simp_all add: complete_store_def)

lemma unshift_set_collection:
  "unshift key e s = Inr s' \<Longrightarrow> \<exists>xs. s' = set_collection key xs s"
  by (auto simp add: unshift_def split: option.splits)

lemma stored_writeStore: "files (writeStore s w) STORE_FILE = Some (StoreDoc s)"
  by (simp add: files_writeStore)

lemma migrate_set_collection:
  "migrate (set_collection key xs (migrate d)) = set_collection key xs (migrate d)"
  by (cases key) (simp_all add: migrate_def)

lemma get_set_collection: "get_collection key (set_collection key xs s) = Some xs"
  by (cases key) simp_all

lemma complete_migrate: "complete_store (migrate d) \<Longrightarrow> migrate (migrate d) = migrate d"
  by (simp add: migrate_def)

subsection \<open>Load\<close>

text \<open>
  Claim C2, as stated, fails: a stored document without the key \<open>chatSessions\<close> is
  returned by the load without that key; only \<open>generatedImages\<close> is defaulted.
\<close>

theorem C2_missing_chatSessions_stays_missing:
  "fst (get_data
     \<lparr>dirs = {DATA_DIR, IMAGES_DIR},
      files = (\<lambda>p. None)(STORE_FILE := Some (StoreDoc
        \<lparr>version = JNum 1, generatedImages = Some [], visionAnalyses = Some [],
         chatSessions = None, sustainabilityReports = Some [],
         dashboardSnapshots = Some []\<rparr>))\<rparr>)
   = Respond 200 (StoreBody
        \<lparr>version = JNum 1, generatedImages = Some [], visionAnalyses = Some [],
         chatSessions = None, sustainabilityReports = Some [],
         dashboardSnapshots = Some []\<rparr>)"
  by (simp add: get_data_def readStore_doc migrate_def)

text \<open>
  Claim C2, amended: for every stored document that parses as JSON, the load answers 200
  with the document as stored, except that a missing \<open>generatedImages\<close> is present as
  the empty array; the four other collection keys are returned as stored, a missing one
  stays missing; no error is raised and no file is written.
\<close>

theorem get_data_defaults_generatedImages:
  assumes "files w STORE_FILE = Some (StoreDoc d)"
  shows "fst (get_data w) = Respond 200 (StoreBody
           (d\<lparr>generatedImages :=
                Some (case generatedImages d of None \<Rightarrow> [] | Some xs \<Rightarrow> xs)\<rparr>))
         \<and> files (snd (get_data w)) = files w"
  using assms
  by (auto simp add: get_data_def readStore_doc migrate_def files_ensureDataDir)

text \<open>A document without \<open>generatedImages\<close> and without \<open>chatSessions\<close>: the first
  comes back empty, the second stays absent.\<close>

theorem get_data_defaults_generatedImages_witness:
  "fst (get_data
     \<lparr>dirs = {}, files = (\<lambda>p. None)(STORE_FILE := Some (StoreDoc
        \<lparr>version = JNum 1, generatedImages = None, visionAnalyses = Some [],
         chatSessions = None, sustainabilityReports = Some [],
         dashboardSnapshots = Some []\<rparr>))\<rparr>)
   = Respond 200 (StoreBody
        \<lparr>version = JNum 1, generatedImages = Some [], visionAnalyses = Some [],
         chatSessions = None, sustainabilityReports = Some [],
         dashboardSnapshots = Some []\<rparr>)"
  using get_data_defaults_generatedImages [of
     "\<lparr>dirs = {}, files = (\<lambda>p. None)(STORE_FILE := Some (StoreDoc
        \<lparr>version = JNum 1, generatedImages = None, visionAnalyses = Some [],
         chatSessions = None, sustainabilityReports = Some [],
         dashboardSnapshots = Some []\<rparr>))\<rparr>"
     "\<lparr>version = JNum 1, generatedImages = None, visionAnalyses = Some [],
         chatSessions = None, sustainabilityReports = Some [],
         dashboardSnapshots = Some []\<rparr>"]
  by simp

subsection \<open>The two image routes\<close>








lemma post_vision_no_image:
  assumes "document_at_load w = Some store" and "visionAnalyses store = Some vs"
    and "data_uri_payload imageData = None" and "\<not> truthy imageData \<or> is_string imageData"
  shows "post_vision env cameraName imageData task result w
         = (Respond 200 (EntityBody (VisionAnalysis (vision_id env)
                cameraName None task result (stamp_iso env))),
            writeStore (store\<lparr>visionAnalyses := Some (VisionAnalysis
                (vision_id env) cameraName None task result
                (stamp_iso env) # vs)\<rparr>) (snd (readStore w)))"
proof -
  from document_at_load_readStore [OF assms(1)] obtain w1 where "readStore w = (Inr store, w1)"
    by blast
  with assms(2,3,4) show ?thesis
    by (simp add: post_vision_def Let_def write_image_none unshift_def)
qed

lemma post_vision_no_image_files:
  assumes "document_at_load w = Some store" and "visionAnalyses store = Some vs"
    and "data_uri_payload imageData = None" and "\<not> truthy imageData \<or> is_string imageData"
  shows "files (snd (post_vision env cameraName imageData task result w))
           = (files w)(STORE_FILE := Some (StoreDoc
                (store\<lparr>visionAnalyses := Some (VisionAnalysis
                   (vision_id env) cameraName None task result (stamp_iso env) # vs)\<rparr>)))"
proof -
  from document_at_load_readStore [OF assms(1)] obtain w1 where w1:
    "readStore w = (Inr store, w1)"
    "files w1 = (if existsSync w STORE_FILE then files w
                 else (files w)(STORE_FILE := Some (StoreDoc empty_store)))"
    by blast
  show ?thesis
    using w1 post_vision_no_image [OF assms, of env cameraName task result]
    by (simp add: files_writeStore upd_store_only)
qed





subsection \<open>Delete\<close>

lemma delete_image_file_result:
  assumes "\<And>p. owned_image_path key item = Some p \<Longrightarrow> files w p = None \<Longrightarrow> p \<notin> dirs w"
  shows "\<exists>w2. delete_image_file key item w = Inr w2
           \<and> files w2 = (case owned_image_path key item of
                           None \<Rightarrow> files w
                         | Some p \<Rightarrow> (files w)(p := None))"
proof (cases "owned_image_path key item")
  case None
  then show ?thesis
    by (auto simp add: delete_image_file_def owned_image_path_def split: option.splits if_splits)
next
  case (Some p)
  then have p: "(key = KvisionAnalyses \<or> key = KgeneratedImages)"
    "\<exists>f. entity_imageFile item = Some f \<and> f \<noteq> [] \<and> p = path_join IMAGES_DIR f"
    by (auto simp add: owned_image_path_def split: option.splits if_splits)
  show ?thesis
  proof (cases "files w p")
    case None
    with assms [OF Some] have "\<not> existsSync w p" by (simp add: existsSync_def)
    moreover from None have "(files w)(p := None) = files w" by (auto simp add: fun_eq_iff)
    ultimately show ?thesis using Some p
      by (auto simp add: delete_image_file_def Let_def)
  next
    case (Some c)
    then have "existsSync w p" by (simp add: existsSync_def)
    with Some p \<open>owned_image_path key item = Some p\<close> show ?thesis
      by (auto simp add: delete_image_file_def Let_def unlinkSync_def)
  qed
qed

lemma delete_entry_missing:
  assumes "files w STORE_FILE = Some (StoreDoc d)"
    and "collectionMap collection = Mapped key"
    and "get_collection key (migrate d) = Some arr"
    and "ident \<notin> entity_id ` set arr"
  shows "delete_entry collection ident w
         = (Respond 404 (ErrorBody (Text ''Entry not found'')), ensureDataDir w)"
proof -
  from assms(4) have "findIndex (\<lambda>item. entity_id item = ident) arr = None"
    by (auto simp add: findIndex_None)
  with assms(1-3) show ?thesis
    by (simp add: delete_entry_def readStore_doc)
qed

lemma delete_entry_removes:
  assumes "files w STORE_FILE = Some (StoreDoc d)"
    and "collectionMap collection = Mapped key"
    and "get_collection key (migrate d) = Some arr"
    and "findIndex (\<lambda>item. entity_id item = ident) arr = Some idx"
    and "\<And>p. owned_image_path key (arr ! idx) = Some p \<Longrightarrow> \<not> names_directory w p"
  shows "fst (delete_entry collection ident w) = Respond 200 SuccessBody
         \<and> files (snd (delete_entry collection ident w))
           = (case owned_image_path key (arr ! idx) of
                None \<Rightarrow> files w
              | Some p \<Rightarrow> (files w)(p := None))
             (STORE_FILE := Some (StoreDoc (set_collection key (splice idx arr) (migrate d))))"
proof -
  have nd: "owned_image_path key (arr ! idx) = Some p \<Longrightarrow>
          files (ensureDataDir w) p = None \<Longrightarrow> p \<notin> dirs (ensureDataDir w)" for p
    using assms(5) [of p] by (auto simp add: names_directory_def files_ensureDataDir)
  from delete_image_file_result [of key "arr ! idx" "ensureDataDir w", OF nd,
      unfolded files_ensureDataDir]
  obtain w2 where w2:
    "delete_image_file key (arr ! idx) (ensureDataDir w) = Inr w2"
    "files w2 = (case owned_image_path key (arr ! idx) of
                   None \<Rightarrow> files w
                 | Some p \<Rightarrow> (files w)(p := None))"
    by blast
  with assms(1-4) show ?thesis
    by (simp add: delete_entry_def readStore_doc files_writeStore)
qed

text \<open>
  Claim C4, as stated, fails: the delete of an id that is not in the collection is
  answered 404 with the body \<^verbatim>\<open>{ error: 'Entry not found' }\<close>, whose only key is
  \<open>error\<close>; there is no \<open>code\<close>.
\<close>

theorem C4_not_found_body_has_no_code:
  "fst (delete_entry ''vision'' ''vision_1''
     \<lparr>dirs = {DATA_DIR, IMAGES_DIR},
      files = (\<lambda>p. None)(STORE_FILE := Some (StoreDoc empty_store))\<rparr>)
   = Respond 404 (ErrorBody (Text ''Entry not found''))
   \<and> body_keys (ErrorBody (Text ''Entry not found'')) = [''error'']"
  by (simp add: delete_entry_def readStore_doc migrate_def empty_store_def collectionMap_def)

text \<open>
  Claim C4, amended: for every delete request whose collection name is in the table and
  whose id is the id of no entity of that collection in the stored document, the
  response is 404 with a JSON body that has the single field \<open>error\<close> (and no
  \<open>code\<close>), and no file, the store document included, is changed by the call.
\<close>

theorem delete_entry_not_found:
  assumes "files w STORE_FILE = Some (StoreDoc d)"
    and "collectionMap collection = Mapped key"
    and "get_collection key (migrate d) = Some arr"
    and "ident \<notin> entity_id ` set arr"
  shows "fst (delete_entry collection ident w) = Respond 404 (ErrorBody (Text ''Entry not found''))
         \<and> body_keys (ErrorBody (Text ''Entry not found'')) = [''error'']
         \<and> files (snd (delete_entry collection ident w)) = files w"
proof -
  from assms(4) have "findIndex (\<lambda>item. entity_id item = ident) arr = None"
    by (auto simp add: findIndex_None)
  with assms(1-3) show ?thesis
    by (simp add: delete_entry_def readStore_doc files_ensureDataDir)
qed

text \<open>A store with one chat session, asked to delete another id.\<close>

theorem delete_entry_not_found_witness:
  "fst (delete_entry ''chat'' ''chat_7''
     \<lparr>dirs = {}, files = (\<lambda>p. None)(STORE_FILE := Some (StoreDoc
        (empty_store\<lparr>chatSessions := Some [ChatSession ''chat_1'' (JArr []) (JStr ''t0'') (JStr ''t1'')]\<rparr>)))\<rparr>)
   = Respond 404 (ErrorBody (Text ''Entry not found''))
   \<and> files (snd (delete_entry ''chat'' ''chat_7''
     \<lparr>dirs = {}, files = (\<lambda>p. None)(STORE_FILE := Some (StoreDoc
        (empty_store\<lparr>chatSessions := Some [ChatSession ''chat_1'' (JArr []) (JStr ''t0'') (JStr ''t1'')]\<rparr>)))\<rparr>))
     = (\<lambda>p. None)(STORE_FILE := Some (StoreDoc
        (empty_store\<lparr>chatSessions := Some [ChatSession ''chat_1'' (JArr []) (JStr ''t0'') (JStr ''t1'')]\<rparr>)))"
  using delete_entry_not_found [of
     "\<lparr>dirs = {}, files = (\<lambda>p. None)(STORE_FILE := Some (StoreDoc
        (empty_store\<lparr>chatSessions := Some [ChatSession ''chat_1'' (JArr []) (JStr ''t0'') (JStr ''t1'')]\<rparr>)))\<rparr>"
     "empty_store\<lparr>chatSessions := Some [ChatSession ''chat_1'' (JArr []) (JStr ''t0'') (JStr ''t1'')]\<rparr>"
     "''chat''" KchatSessions
     "[ChatSession ''chat_1'' (JArr []) (JStr ''t0'') (JStr ''t1'')]" "''chat_7''"]
  by (simp add: collectionMap_def migrate_def empty_store_def)

text \<open>
  Claim C6, as stated, fails: two vision saves within the same millisecond get the same
  id \<^verbatim>\<open>vision_1700000000000\<close>; the first delete of that id removes one of the two
  entities, and the second delete with the same collection and id is answered 200, not
  404.
\<close>

theorem C6_second_delete_of_duplicate_id_succeeds:
  "fst (delete_entry ''vision'' ''vision_1700000000000''
     (snd (delete_entry ''vision'' ''vision_1700000000000''
       (snd (post_vision
          \<lparr>id_millis = 1700000000000, id_random = [], file_millis = 1700000000000,
           file_random = [], started_iso = ''2023-11-14T22:13:20.000Z'',
           stamp_iso = ''2023-11-14T22:13:20.000Z''\<rparr>
          (JStr ''Caixa'') JUndefined (JStr ''count people'') JNull
          (snd (post_vision
             \<lparr>id_millis = 1700000000000, id_random = [], file_millis = 1700000000000,
              file_random = [], started_iso = ''2023-11-14T22:13:20.000Z'',
              stamp_iso = ''2023-11-14T22:13:20.000Z''\<rparr>
             (JStr ''Caixa'') JUndefined (JStr ''count people'') JNull
             \<lparr>dirs = {}, files = \<lambda>p. None\<rparr>)))))))
   = Respond 200 SuccessBody"
proof -
  let ?E = "\<lparr>id_millis = 1700000000000, id_random = [], file_millis = 1700000000000,
           file_random = [], started_iso = ''2023-11-14T22:13:20.000Z'',
           stamp_iso = ''2023-11-14T22:13:20.000Z''\<rparr>"
  let ?e = "VisionAnalysis ''vision_1700000000000'' (JStr ''Caixa'') None (JStr ''count people'')
              JNull ''2023-11-14T22:13:20.000Z''"
  let ?w0 = "\<lparr>dirs = {}, files = \<lambda>p. None\<rparr>"
  let ?w1 = "snd (post_vision ?E (JStr ''Caixa'') JUndefined (JStr ''count people'') JNull ?w0)"
  let ?w2 = "snd (post_vision ?E (JStr ''Caixa'') JUndefined (JStr ''count people'') JNull ?w1)"
  let ?w3 = "snd (delete_entry ''vision'' ''vision_1700000000000'' ?w2)"
  let ?s1 = "empty_store\<lparr>visionAnalyses := Some [?e]\<rparr>"
  let ?s2 = "empty_store\<lparr>visionAnalyses := Some [?e, ?e]\<rparr>"
  have ident: "vision_id ?E = ''vision_1700000000000''"
    by (simp add: vision_id_def digits.simps)
  have none: "data_uri_payload JUndefined = None"
    by (simp add: data_uri_payload_def)
  have falsy: "\<not> truthy JUndefined \<or> is_string JUndefined"
    by simp
  have m: "collectionMap ''vision'' = Mapped KvisionAnalyses"
    by (simp add: collectionMap_def)
  have f1: "files ?w1 STORE_FILE = Some (StoreDoc ?s1)"
    using post_vision_no_image_files [OF document_at_load_fresh _ none falsy, of "[]" ?E]
    by (simp add: empty_store_def ident)
  have l1: "document_at_load ?w1 = Some ?s1"
    using document_at_load_doc [OF f1] by (simp add: migrate_def empty_store_def)
  have f2: "files ?w2 STORE_FILE = Some (StoreDoc ?s2)"
    using post_vision_no_image_files [OF l1 _ none falsy, of "[?e]" ?E]
    by (simp add: empty_store_def ident)
  have c2: "get_collection KvisionAnalyses (migrate ?s2) = Some [?e, ?e]"
    by (simp add: migrate_def empty_store_def)
  have i2: "findIndex (\<lambda>item. entity_id item = ''vision_1700000000000'') [?e, ?e] = Some 0"
    by simp
  have o2: "owned_image_path KvisionAnalyses ([?e, ?e] ! 0) = None"
    by (simp add: owned_image_path_def)
  have f3: "files ?w3 STORE_FILE
            = Some (StoreDoc (set_collection KvisionAnalyses (splice 0 [?e, ?e]) (migrate ?s2)))"
    using delete_entry_removes [OF f2 m c2 i2] o2 by simp
  have c3: "get_collection KvisionAnalyses
              (migrate (set_collection KvisionAnalyses (splice 0 [?e, ?e]) (migrate ?s2)))
            = Some [?e]"
    by (simp add: migrate_def empty_store_def splice_def)
  have i3: "findIndex (\<lambda>item. entity_id item = ''vision_1700000000000'') [?e] = Some 0"
    by simp
  have o3: "owned_image_path KvisionAnalyses ([?e] ! 0) = None"
    by (simp add: owned_image_path_def)
  show ?thesis
    using delete_entry_removes [OF f3 m c3 i3] o3 by simp
qed

text \<open>
  Claim C6, amended: for every delete of an entity that exists (the first one of the
  collection with the id), where the image path of the entity names no directory: the
  response is 200; when the entity is in \<open>visionAnalyses\<close> or \<open>generatedImages\<close> and
  has a non-empty \<open>imageFile\<close>, the file at that name under the images directory is
  gone afterwards, whether it existed or not; for any other entity no file but the store
  file is touched; the store document is the loaded one without that entity; and a
  second delete with the same collection and id is answered 404, provided no other entity
  of the collection has the same id.
\<close>

theorem delete_entry_existing:
  assumes "files w STORE_FILE = Some (StoreDoc d)"
    and "collectionMap collection = Mapped key"
    and "get_collection key (migrate d) = Some arr"
    and "findIndex (\<lambda>item. entity_id item = ident) arr = Some idx"
    and "\<And>p. owned_image_path key (arr ! idx) = Some p \<Longrightarrow> \<not> names_directory w p"
  shows "fst (delete_entry collection ident w) = Respond 200 SuccessBody
         \<and> files (snd (delete_entry collection ident w))
           = (case owned_image_path key (arr ! idx) of
                None \<Rightarrow> files w
              | Some p \<Rightarrow> (files w)(p := None))
             (STORE_FILE := Some (StoreDoc (set_collection key (splice idx arr) (migrate d))))
         \<and> (ident \<notin> entity_id ` set (splice idx arr) \<longrightarrow>
              fst (delete_entry collection ident (snd (delete_entry collection ident w)))
                = Respond 404 (ErrorBody (Text ''Entry not found'')))"
proof -
  let ?w' = "snd (delete_entry collection ident w)"
  let ?d' = "set_collection key (splice idx arr) (migrate d)"
  note first = delete_entry_removes [OF assms]
  then have stored: "files ?w' STORE_FILE = Some (StoreDoc ?d')" by simp
  have coll: "get_collection key (migrate ?d') = Some (splice idx arr)"
    by (simp add: migrate_set_collection get_set_collection)
  have "ident \<notin> entity_id ` set (splice idx arr) \<Longrightarrow>
        fst (delete_entry collection ident ?w') = Respond 404 (ErrorBody (Text ''Entry not found''))"
    using delete_entry_missing [OF stored assms(2) coll] by simp
  with first show ?thesis by blast
qed

text \<open>A vision analysis with its image: both are gone after the delete, and the second
  delete is answered 404.\<close>

theorem delete_entry_existing_witness:
  "fst (delete_entry ''vision'' ''vision_1''
     \<lparr>dirs = {DATA_DIR, IMAGES_DIR},
      files = (\<lambda>p. None)
        (STORE_FILE := Some (StoreDoc (empty_store\<lparr>visionAnalyses := Some
           [VisionAnalysis ''vision_1'' (JStr ''Caixa'') (Some ''img_1.png'') (JStr ''count'')
              JNull ''2023-11-14T22:13:20.000Z'']\<rparr>)),
         IMAGES_DIR @ [''img_1.png''] := Some (ImageData ''iVBORw0KGgo=''))\<rparr>)
   = Respond 200 SuccessBody
   \<and> files (snd (delete_entry ''vision'' ''vision_1''
     \<lparr>dirs = {DATA_DIR, IMAGES_DIR},
      files = (\<lambda>p. None)
        (STORE_FILE := Some (StoreDoc (empty_store\<lparr>visionAnalyses := Some
           [VisionAnalysis ''vision_1'' (JStr ''Caixa'') (Some ''img_1.png'') (JStr ''count'')
              JNull ''2023-11-14T22:13:20.000Z'']\<rparr>)),
         IMAGES_DIR @ [''img_1.png''] := Some (ImageData ''iVBORw0KGgo=''))\<rparr>))
     = (\<lambda>p. None)(STORE_FILE := Some (StoreDoc empty_store))
   \<and> fst (delete_entry ''vision'' ''vision_1'' (snd (delete_entry ''vision'' ''vision_1''
     \<lparr>dirs = {DATA_DIR, IMAGES_DIR},
      files = (\<lambda>p. None)
        (STORE_FILE := Some (StoreDoc (empty_store\<lparr>visionAnalyses := Some
           [VisionAnalysis ''vision_1'' (JStr ''Caixa'') (Some ''img_1.png'') (JStr ''count'')
              JNull ''2023-11-14T22:13:20.000Z'']\<rparr>)),
         IMAGES_DIR @ [''img_1.png''] := Some (ImageData ''iVBORw0KGgo=''))\<rparr>)))
     = Respond 404 (ErrorBody (Text ''Entry not found''))"
proof -
  let ?e = "VisionAnalysis ''vision_1'' (JStr ''Caixa'') (Some ''img_1.png'') (JStr ''count'')
              JNull ''2023-11-14T22:13:20.000Z''"
  let ?d = "empty_store\<lparr>visionAnalyses := Some [?e]\<rparr>"
  let ?w = "\<lparr>dirs = {DATA_DIR, IMAGES_DIR},
      files = (\<lambda>p. None)(STORE_FILE := Some (StoreDoc ?d),
         IMAGES_DIR @ [''img_1.png''] := Some (ImageData ''iVBORw0KGgo=''))\<rparr>"
  have f: "files ?w STORE_FILE = Some (StoreDoc ?d)"
    by (simp add: store_not_image_path)
  have m: "collectionMap ''vision'' = Mapped KvisionAnalyses"
    by (simp add: collectionMap_def)
  have c: "get_collection KvisionAnalyses (migrate ?d) = Some [?e]"
    by (simp add: migrate_def empty_store_def)
  have i: "findIndex (\<lambda>item. entity_id item = ''vision_1'') [?e] = Some 0"
    by simp
  have pj: "path_join IMAGES_DIR ''img_1.png'' = IMAGES_DIR @ [''img_1.png'']"
    by (rule path_join_plain) simp_all
  have o: "owned_image_path KvisionAnalyses ([?e] ! 0) = Some (IMAGES_DIR @ [''img_1.png''])"
    by (simp add: owned_image_path_def pj)
  have nd: "\<not> names_directory ?w p" if "owned_image_path KvisionAnalyses ([?e] ! 0) = Some p" for p
    using that o by (simp add: names_directory_def)
  have s: "set_collection KvisionAnalyses (splice 0 [?e]) (migrate ?d) = empty_store"
    by (simp add: migrate_def empty_store_def splice_def)
  have u: "((\<lambda>p. None)(STORE_FILE := Some (StoreDoc ?d),
         IMAGES_DIR @ [''img_1.png''] := Some (ImageData ''iVBORw0KGgo='')))
           (IMAGES_DIR @ [''img_1.png''] := None, STORE_FILE := Some (StoreDoc empty_store))
        = (\<lambda>p. None)(STORE_FILE := Some (StoreDoc empty_store))"
    by (auto simp add: fun_eq_iff)
  have n: "''vision_1'' \<notin> entity_id ` set (splice 0 [?e])"
    by (simp add: splice_def)
  from delete_entry_existing [OF f m c i nd] o s u n show ?thesis
    by simp
qed

subsection \<open>Chat sessions\<close>







subsection \<open>Serving images\<close>

text \<open>
  Claim C8: the route that serves images joins the file name to the images directory
  without a check. For the file name \<^verbatim>\<open>../store.json\<close> (the request
  \<^verbatim>\<open>GET /api/data/images/..%2Fstore.json\<close>) the joined path is the store file, which
  is not in the images directory, and its content is sent with status 200.
\<close>

theorem get_image_serves_store_file:
  "get_image ''../store.json''
     \<lparr>dirs = {DATA_DIR, IMAGES_DIR},
      files = (\<lambda>p. None)(STORE_FILE := Some (StoreDoc empty_store))\<rparr>
   = (Respond 200 (FileBody (StoreDoc empty_store)),
      \<lparr>dirs = {DATA_DIR, IMAGES_DIR},
       files = (\<lambda>p. None)(STORE_FILE := Some (StoreDoc empty_store))\<rparr>)
   \<and> path_join IMAGES_DIR ''../store.json'' = STORE_FILE
   \<and> \<not> in_images_dir STORE_FILE"
proof -
  have p: "path_join IMAGES_DIR ''../store.json'' = STORE_FILE"
    by (simp add: IMAGES_DIR_eq STORE_FILE_eq path_join_def push_segment_def)
  have d: "\<not> list_ex dotfile_segment STORE_FILE"
    by (simp add: STORE_FILE_eq dotfile_segment_def)
  have n: "\<not> in_images_dir STORE_FILE"
    by (simp add: in_images_dir_def IMAGES_DIR_eq STORE_FILE_eq)
  show ?thesis
    by (simp add: get_image_def Let_def p d n existsSync_def sendFile_def)
qed

text \<open>The route changes nothing: no file is created, whatever the file name.\<close>

lemma get_image_no_write: "snd (get_image filename w) = w"
  by (simp add: get_image_def Let_def)

subsection \<open>The store document across operations\<close>

lemma generated_image_stored:
  assumes "readStore w = (Inr store, w1)" and "files w1 STORE_FILE = Some (StoreDoc d0)"
  shows "\<exists>d'. files (snd (post_generated_image env c i w)) STORE_FILE = Some (StoreDoc d')
            \<and> (d' = d0 \<or> (\<exists>key xs. d' = set_collection key xs store))"
proof (cases "write_image (generated_image_file env) i w1")
  case (Inl e)
  with assms show ?thesis
    by (simp add: post_generated_image_def Let_def internal_error_def)
next
  case (Inr r)
  obtain imageFile w2 where r: "r = (imageFile, w2)" by (cases r)
  with Inr have "files w2 STORE_FILE = Some (StoreDoc d0)"
    using write_image_generated_store [of env i w1 imageFile w2] assms(2) by simp
  with assms Inr r show ?thesis
    by (auto simp add: post_generated_image_def Let_def internal_error_def stored_writeStore
        split: option.splits sum.splits dest: unshift_set_collection)
qed

lemma vision_stored:
  assumes "readStore w = (Inr store, w1)" and "files w1 STORE_FILE = Some (StoreDoc d0)"
  shows "\<exists>d'. files (snd (post_vision env c i t r w)) STORE_FILE = Some (StoreDoc d')
            \<and> (d' = d0 \<or> (\<exists>key xs. d' = set_collection key xs store))"
proof (cases "write_image (vision_image_file env) i w1")
  case (Inl e)
  with assms show ?thesis
    by (simp add: post_vision_def Let_def internal_error_def)
next
  case (Inr res)
  obtain imageFile w2 where res: "res = (imageFile, w2)" by (cases res)
  with Inr have "files w2 STORE_FILE = Some (StoreDoc d0)"
    using write_image_vision_store [of env i w1 imageFile w2] assms(2) by simp
  with assms Inr res show ?thesis
    by (auto simp add: post_vision_def Let_def internal_error_def stored_writeStore
        split: option.splits sum.splits dest: unshift_set_collection)
qed

lemma chat_stored:
  assumes "readStore w = (Inr store, w1)" and "files w1 STORE_FILE = Some (StoreDoc d0)"
  shows "\<exists>d'. files (snd (post_chat env i m w)) STORE_FILE = Some (StoreDoc d')
            \<and> (d' = d0 \<or> (\<exists>key xs. d' = set_collection key xs store))"
proof (cases "chatSessions store")
  case None
  with assms show ?thesis
    by (simp add: post_chat_def internal_error_def)
next
  case (Some sessions)
  have "store\<lparr>chatSessions := Some xs\<rparr> = set_collection KchatSessions xs store" for xs
    by simp
  with assms Some show ?thesis
    by (simp add: post_chat_def Let_def stored_writeStore del: set_collection.simps) blast
qed

lemma sustainability_stored:
  assumes "readStore w = (Inr store, w1)" and "files w1 STORE_FILE = Some (StoreDoc d0)"
  shows "\<exists>d'. files (snd (post_sustainability env a b c w)) STORE_FILE = Some (StoreDoc d')
            \<and> (d' = d0 \<or> (\<exists>key xs. d' = set_collection key xs store))"
  using assms
  by (auto simp add: post_sustainability_def Let_def internal_error_def stored_writeStore
      split: option.splits sum.splits dest: unshift_set_collection)

lemma dashboard_stored:
  assumes "readStore w = (Inr store, w1)" and "files w1 STORE_FILE = Some (StoreDoc d0)"
  shows "\<exists>d'. files (snd (post_dashboard env a b c t w)) STORE_FILE = Some (StoreDoc d')
            \<and> (d' = d0 \<or> (\<exists>key xs. d' = set_collection key xs store))"
  using assms
  by (auto simp add: post_dashboard_def Let_def internal_error_def stored_writeStore
      split: option.splits sum.splits dest: unshift_set_collection)

lemma delete_stored:
  assumes "readStore w = (Inr store, w1)" and "files w1 STORE_FILE = Some (StoreDoc d0)"
  shows "\<exists>d'. files (snd (delete_entry c i w)) STORE_FILE = Some (StoreDoc d')
            \<and> (d' = d0 \<or> (\<exists>key xs. d' = set_collection key xs store))"
  using assms
  by (auto simp add: delete_entry_def Let_def internal_error_def stored_writeStore
      split: option.splits sum.splits map_lookup.splits)

lemma get_data_stored:
  assumes "readStore w = (Inr store, w1)" and "files w1 STORE_FILE = Some (StoreDoc d0)"
  shows "\<exists>d'. files (snd (get_data w)) STORE_FILE = Some (StoreDoc d')
            \<and> (d' = d0 \<or> (\<exists>key xs. d' = set_collection key xs store))"
  using assms by (simp add: get_data_def)

text \<open>
  After an operation on a store that loads, the store file holds a document: the one
  that was loaded, or the loaded one with one collection replaced.
\<close>

lemma router_stored:
  assumes "loaded_store w = Some store" and "persistence_operation r"
  shows "\<exists>d'. files (snd (router env r w)) STORE_FILE = Some (StoreDoc d')
            \<and> (migrate d' = store \<or> (\<exists>key xs. d' = set_collection key xs store))"
proof -
  from loaded_store_readStore [OF assms(1)] obtain w1 d0 where r:
    "readStore w = (Inr store, w1)" "files w1 STORE_FILE = Some (StoreDoc d0)"
    and m: "migrate d0 = store"
    by blast
  have "\<exists>d'. files (snd (router env r w)) STORE_FILE = Some (StoreDoc d')
            \<and> (d' = d0 \<or> (\<exists>key xs. d' = set_collection key xs store))"
  proof (cases r)
    case GetData
    then show ?thesis using get_data_stored [OF r] by simp
  next
    case (PostGeneratedImage c i)
    then show ?thesis using generated_image_stored [OF r] by simp
  next
    case (PostVision c i t u)
    then show ?thesis using vision_stored [OF r] by simp
  next
    case (PostChat i m)
    then show ?thesis using chat_stored [OF r] by simp
  next
    case (PostSustainability a b c)
    then show ?thesis using sustainability_stored [OF r] by simp
  next
    case (PostDashboard a b c t)
    then show ?thesis using dashboard_stored [OF r] by simp
  next
    case (DeleteEntry c i)
    then show ?thesis using delete_stored [OF r] by simp
  next
    case (GetImage f)
    with assms(2) show ?thesis by simp
  qed
  with m show ?thesis by blast
qed

text \<open>
  The operations keep a store complete, and the store the first call creates is
  complete: the stores that the routes themselves produce load, and have all their
  collections.
\<close>

lemma router_keeps_store_complete:
  assumes "loaded_store w = Some store" and "complete_store store"
    and "persistence_operation r"
  shows "\<exists>store'. loaded_store (snd (router env r w)) = Some store' \<and> complete_store store'"
proof -
  from router_stored [OF assms(1,3), of env] obtain d' where d':
    "files (snd (router env r w)) STORE_FILE = Some (StoreDoc d')"
    "migrate d' = store \<or> (\<exists>key xs. d' = set_collection key xs store)"
    by blast
  from d'(2) have "complete_store (migrate d')"
  proof
    assume "migrate d' = store"
    with assms(2) show ?thesis by simp
  next
    assume "\<exists>key xs. d' = set_collection key xs store"
    then obtain key xs where "d' = set_collection key xs store" by blast
    with complete_set_collection [OF assms(2), of key xs]
    show ?thesis by (simp add: migrate_def complete_store_def)
  qed
  with loaded_store_doc [OF d'(1)] show ?thesis by simp
qed

lemma fresh_store_complete:
  "loaded_store \<lparr>dirs = {}, files = \<lambda>p. None\<rparr> = Some empty_store \<and> complete_store empty_store"
  by (simp add: loaded_store_fresh complete_store_def empty_store_def)



end
